theory Spec2Isabelle
  imports Main "HOL-Library.Word" "HOL-Library.AList"
begin

section \<open>Strings, bytes and the file system\<close>

text \<open>
  A path and a file's content are byte strings (an Isabelle \<open>char\<close> is one byte).
  A JavaScript string is a sequence of UTF-16 code units; its \<open>length\<close> counts
  code units, not bytes.
\<close>

type_synonym path = string
type_synonym bytes = string
type_synonym jsstring = "16 word list"

definition js_of_ascii :: "string \<Rightarrow> jsstring" where
  "js_of_ascii s = map (\<lambda>c. of_nat (of_char c)) s"

definition utf8_replacement :: bytes where
  "utf8_replacement = [char_of (0xEF::nat), char_of (0xBF::nat), char_of (0xBD::nat)]"

text \<open>
  What \<open>fs.writeFileSync(path, string)\<close> writes for a string: its UTF-8 encoding.
  A surrogate pair is one code point of four bytes, a lone surrogate becomes U+FFFD.
\<close>

fun utf8_encode :: "jsstring \<Rightarrow> bytes" where
  "utf8_encode [] = []"
| "utf8_encode (u # us) =
     (let c = unat u in
      if c < 0x80 then char_of c # utf8_encode us
      else if c < 0x800 then
        char_of (0xC0 + c div 64) # char_of (0x80 + c mod 64) # utf8_encode us
      else if 0xD800 \<le> c \<and> c < 0xDC00 then
        (case us of
           [] \<Rightarrow> utf8_replacement
         | l # rest \<Rightarrow>
             (let d = unat l in
              if 0xDC00 \<le> d \<and> d < 0xE000 then
                (let cp = 0x10000 + (c - 0xD800) * 0x400 + (d - 0xDC00) in
                 char_of (0xF0 + cp div 262144) # char_of (0x80 + (cp div 4096) mod 64)
                 # char_of (0x80 + (cp div 64) mod 64) # char_of (0x80 + cp mod 64)
                 # utf8_encode rest)
              else utf8_replacement @ utf8_encode us))
      else if 0xDC00 \<le> c \<and> c < 0xE000 then utf8_replacement @ utf8_encode us
      else
        char_of (0xE0 + c div 4096) # char_of (0x80 + (c div 64) mod 64)
        # char_of (0x80 + c mod 64) # utf8_encode us)"

text \<open>
  The file system: every path holds a regular file, a directory, or nothing.
\<close>

datatype node = File bytes | Dir

type_synonym filesystem = "path \<rightharpoonup> node"

datatype error =
    ENOENT path
  | EISDIR path
  | EEXIST path
  | ENOTDIR path
  | SyntaxError
  | TypeError
  | Thrown string

definition dirname :: "path \<Rightarrow> path" where
  "dirname p =
     (let d = rev (tl (dropWhile (\<lambda>c. c \<noteq> CHR ''/'') (rev p)))
      in if d = [] then ''/'' else d)"

text \<open>\<open>path.join(dir, name)\<close> for a normalised \<open>dir\<close> and a plain file name.\<close>

definition path_join :: "path \<Rightarrow> string \<Rightarrow> path" where
  "path_join d n = d @ ''/'' @ n"

definition readFileSync :: "filesystem \<Rightarrow> path \<Rightarrow> error + bytes" where
  "readFileSync fs p =
     (case fs p of
        Some (File b) \<Rightarrow> Inr b
      | Some Dir \<Rightarrow> Inl (EISDIR p)
      | None \<Rightarrow> Inl (ENOENT p))"

text \<open>
  \<open>fs.statSync(p).size\<close>. The pipeline calls it on regular files only (the walker
  yields no directory); on a directory the model reports an error.
\<close>

definition statSync_size :: "filesystem \<Rightarrow> path \<Rightarrow> error + nat" where
  "statSync_size fs p =
     (case fs p of
        Some (File b) \<Rightarrow> Inr (length b)
      | Some Dir \<Rightarrow> Inl (EISDIR p)
      | None \<Rightarrow> Inl (ENOENT p))"

definition path_exists :: "filesystem \<Rightarrow> path \<Rightarrow> bool" where
  "path_exists fs p = (fs p \<noteq> None)"

definition writeFileSync :: "filesystem \<Rightarrow> path \<Rightarrow> bytes \<Rightarrow> error + filesystem" where
  "writeFileSync fs p b =
     (case fs p of
        Some Dir \<Rightarrow> Inl (EISDIR p)
      | Some (File old) \<Rightarrow> Inr (fs(p \<mapsto> File b))
      | None \<Rightarrow>
          if fs (dirname p) = Some Dir then Inr (fs(p \<mapsto> File b)) else Inl (ENOENT p))"

text \<open>
  \<open>fs.unlink(p, callback)\<close>: the callback only logs a failure, so a path that is
  not a regular file leaves the file system as it is.
\<close>

definition unlink :: "filesystem \<Rightarrow> path \<Rightarrow> filesystem" where
  "unlink fs p = (case fs p of Some (File b) \<Rightarrow> fs(p := None) | _ \<Rightarrow> fs)"

fun prefixes_from :: "path \<Rightarrow> path \<Rightarrow> path list" where
  "prefixes_from acc [] = [acc]"
| "prefixes_from acc (c # cs) =
     (if c = CHR ''/'' \<and> acc \<noteq> [] then [acc] else []) @ prefixes_from (acc @ [c]) cs"

text \<open>
  \<open>fs.mkdirSync(p, {recursive: true})\<close>: creates \<open>p\<close> and its missing ancestors,
  and fails when a regular file is in the way.
\<close>

definition mkdirSync :: "filesystem \<Rightarrow> path \<Rightarrow> error + filesystem" where
  "mkdirSync fs p =
     (let ps = prefixes_from [] p in
      if \<exists>q \<in> set ps. \<exists>b. fs q = Some (File b)
      then Inl (if (\<exists>b. fs p = Some (File b)) then EEXIST p else ENOTDIR p)
      else Inr (\<lambda>q. if q \<in> set ps then Some Dir else fs q))"


section \<open>JSON values and \<open>JSON.stringify\<close>\<close>

text \<open>
  A JavaScript value as far as settings use it. An object is the list of its own
  properties in enumeration order (keys distinct); numbers are integers. \<open>JUndefined\<close>
  is the value of a property that is set to \<open>undefined\<close>.
\<close>

datatype json =
    JNull
  | JUndefined
  | JBool bool
  | JNum int
  | JStr string
  | JArr "json list"
  | JObj "(string \<times> json) list"

definition digit_char :: "nat \<Rightarrow> char" where
  "digit_char d = char_of (48 + d)"

fun nat_digits :: "nat \<Rightarrow> string" where
  "nat_digits n = (if n < 10 then [digit_char n] else nat_digits (n div 10) @ [digit_char (n mod 10)])"

definition int_digits :: "int \<Rightarrow> string" where
  "int_digits i = (if i < 0 then CHR ''-'' # nat_digits (nat (- i)) else nat_digits (nat i))"

definition hex_char :: "nat \<Rightarrow> char" where
  "hex_char d = (if d < 10 then char_of (48 + d) else char_of (87 + d))"

definition json_escape_char :: "char \<Rightarrow> string" where
  "json_escape_char c =
     (if c = CHR 0x22 then [CHR 0x5C, CHR 0x22]
      else if c = CHR 0x5C then [CHR 0x5C, CHR 0x5C]
      else if c = CHR 0x08 then [CHR 0x5C, CHR ''b'']
      else if c = CHR 0x09 then [CHR 0x5C, CHR ''t'']
      else if c = CHR 0x0A then [CHR 0x5C, CHR ''n'']
      else if c = CHR 0x0C then [CHR 0x5C, CHR ''f'']
      else if c = CHR 0x0D then [CHR 0x5C, CHR ''r'']
      else if (of_char c :: nat) < 32 then
        [CHR 0x5C, CHR ''u'', CHR ''0'', CHR ''0'',
         hex_char (of_char c div 16), hex_char (of_char c mod 16)]
      else [c])"

definition json_quote :: "string \<Rightarrow> string" where
  "json_quote s = [CHR 0x22] @ concat (map json_escape_char s) @ [CHR 0x22]"

fun intercalate :: "string \<Rightarrow> string list \<Rightarrow> string" where
  "intercalate sep [] = []"
| "intercalate sep [x] = x"
| "intercalate sep (x # y # ys) = x @ sep @ intercalate sep (y # ys)"

text \<open>
  \<open>JSON.stringify(v)\<close> without indentation. The result \<open>None\<close> is JavaScript's
  \<open>undefined\<close>: a property whose value serialises to \<open>undefined\<close> is left out of its
  object, and an array element is written \<open>null\<close>.
\<close>

fun JSON_stringify :: "json \<Rightarrow> string option" where
  "JSON_stringify JNull = Some ''null''"
| "JSON_stringify JUndefined = None"
| "JSON_stringify (JBool b) = Some (if b then ''true'' else ''false'')"
| "JSON_stringify (JNum i) = Some (int_digits i)"
| "JSON_stringify (JStr s) = Some (json_quote s)"
| "JSON_stringify (JArr xs) =
     Some (''['' @ intercalate '',''
        (map (\<lambda>x. case JSON_stringify x of None \<Rightarrow> ''null'' | Some t \<Rightarrow> t) xs) @ '']'')"
| "JSON_stringify (JObj kvs) =
     Some (''{'' @ intercalate '',''
        (concat (map (\<lambda>kv. case JSON_stringify (snd kv) of
                          None \<Rightarrow> []
                        | Some t \<Rightarrow> [json_quote (fst kv) @ '':'' @ t]) kvs)) @ ''}'')"


section \<open>The cache manager (\<open>CompressionCache.ts\<close>)\<close>

record CacheEntry =
  sourceHash :: string
  compressedPath :: path
  timestamp :: nat
  settings :: json
  size_original :: nat
  size_compressed :: nat

record CompressionCache =
  version :: string
  entries :: "path \<rightharpoonup> CacheEntry"

record CompressionCacheManagerImpl =
  cacheDir :: path
  manifest :: CompressionCache

text \<open>
  What the code takes from its libraries and its platform: the digest, the clock, the
  serialisation of the manifest (\<open>JSON.stringify(manifest, null, 2)\<close> and
  \<open>JSON.parse\<close>, \<open>None\<close> when it throws), UTF-8 decoding, and the compression
  adapters. An adapter either returns or throws.
\<close>

datatype 'a outcome = Returns 'a | Throws string

record env =
  sha256_hex :: "bytes \<Rightarrow> string"
  date_now :: nat
  manifest_stringify :: "CompressionCache \<Rightarrow> bytes"
  manifest_parse :: "bytes \<Rightarrow> CompressionCache option"
  utf8_decode :: "bytes \<Rightarrow> jsstring"
  sharp_metadata_format :: "bytes \<Rightarrow> string option outcome"
  sharp_toBuffer :: "string \<Rightarrow> json \<Rightarrow> bytes \<Rightarrow> bytes outcome"
  html_minify :: "jsstring \<Rightarrow> json \<Rightarrow> jsstring outcome"
  terser_minify :: "jsstring \<Rightarrow> json \<Rightarrow> jsstring option outcome"
  svgo_optimize :: "path \<Rightarrow> jsstring \<Rightarrow> json \<Rightarrow> jsstring outcome"
  csso_minify :: "jsstring \<Rightarrow> json \<Rightarrow> jsstring outcome"

definition empty_manifest :: CompressionCache where
  "empty_manifest = \<lparr>version = ''1'', entries = Map.empty\<rparr>"

definition new_manager :: "path \<Rightarrow> CompressionCacheManagerImpl" where
  "new_manager astroDir = \<lparr>cacheDir = astroDir, manifest = empty_manifest\<rparr>"

definition manifestPath :: "CompressionCacheManagerImpl \<Rightarrow> path" where
  "manifestPath m = path_join (cacheDir m) ''manifest.json''"

definition loadManifest ::
  "env \<Rightarrow> CompressionCacheManagerImpl \<Rightarrow> filesystem \<Rightarrow> error + CompressionCacheManagerImpl" where
  "loadManifest E m fs =
     (case readFileSync fs (manifestPath m) of
        Inl e \<Rightarrow> Inl e
      | Inr content \<Rightarrow>
          (case manifest_parse E content of
             None \<Rightarrow> Inl SyntaxError
           | Some parsed \<Rightarrow> Inr (m\<lparr>manifest := parsed\<rparr>)))"

definition saveManifest ::
  "env \<Rightarrow> CompressionCacheManagerImpl \<Rightarrow> filesystem \<Rightarrow> error + filesystem" where
  "saveManifest E m fs = writeFileSync fs (manifestPath m) (manifest_stringify E (manifest m))"

text \<open>
  \<open>initialize\<close> returns the manager and the file system as it leaves them, with the
  error it throws, if any: a failure after \<open>mkdirSync\<close> leaves the directory created.
\<close>

definition initialize ::
  "env \<Rightarrow> CompressionCacheManagerImpl \<Rightarrow> filesystem
     \<Rightarrow> CompressionCacheManagerImpl \<times> filesystem \<times> error option" where
  "initialize E m fs =
     (case mkdirSync fs (cacheDir m) of
        Inl e \<Rightarrow> (m, fs, Some e)
      | Inr fs1 \<Rightarrow>
          (case loadManifest E m fs1 of
             Inr m1 \<Rightarrow> (m1, fs1, None)
           | Inl caught \<Rightarrow>
               (case saveManifest E m fs1 of
                  Inl e \<Rightarrow> (m, fs1, Some e)
                | Inr fs2 \<Rightarrow> (m, fs2, None))))"

text \<open>
  The interface declares \<open>invalidateCache(pattern?: string)\<close>: a call without argument
  reads the property named \<open>undefined\<close>.
\<close>

definition property_key :: "path option \<Rightarrow> path" where
  "property_key arg = (case arg of None \<Rightarrow> ''undefined'' | Some p \<Rightarrow> p)"

definition delete_entry :: "CompressionCacheManagerImpl \<Rightarrow> path \<Rightarrow> CompressionCacheManagerImpl" where
  "delete_entry m p = m\<lparr>manifest := (manifest m)\<lparr>entries := (entries (manifest m))(p := None)\<rparr>\<rparr>"

definition invalidateCache ::
  "CompressionCacheManagerImpl \<Rightarrow> filesystem \<Rightarrow> path option
     \<Rightarrow> error + (CompressionCacheManagerImpl \<times> filesystem)" where
  "invalidateCache m fs arg =
     (case entries (manifest m) (property_key arg) of
        None \<Rightarrow> Inl TypeError
      | Some entry \<Rightarrow> Inr (delete_entry m (property_key arg), unlink fs (compressedPath entry)))"

text \<open>
  \<open>getCachedFile\<close> does not await \<open>invalidateCache\<close>: a rejection there would not reach
  the caller.
\<close>

definition getCachedFile ::
  "CompressionCacheManagerImpl \<Rightarrow> filesystem \<Rightarrow> path \<Rightarrow> string \<Rightarrow> json
     \<Rightarrow> CacheEntry option \<times> CompressionCacheManagerImpl \<times> filesystem" where
  "getCachedFile m fs originalPath originalHash usedSettings =
     (case entries (manifest m) originalPath of
        None \<Rightarrow> (None, m, fs)
      | Some entry \<Rightarrow>
          if sourceHash entry \<noteq> originalHash
             \<or> JSON_stringify (settings entry) \<noteq> JSON_stringify usedSettings
          then (case invalidateCache m fs (Some originalPath) of
                  Inr (m1, fs1) \<Rightarrow> (None, m1, fs1)
                | Inl e \<Rightarrow> (None, m, fs))
          else if path_exists fs (compressedPath entry) then (Some entry, m, fs)
          else (None, delete_entry m originalPath, fs))"

text \<open>\<open>p.split('.').pop() || ''\<close>: what follows the last dot, the whole string without one.\<close>

definition last_segment :: "string \<Rightarrow> string" where
  "last_segment p = rev (takeWhile (\<lambda>c. c \<noteq> CHR ''.'') (rev p))"

definition cachedFilePath :: "CompressionCacheManagerImpl \<Rightarrow> path \<Rightarrow> string \<Rightarrow> path" where
  "cachedFilePath m originalPath originalHash =
     path_join (cacheDir m) (originalHash @ ''.'' @ last_segment originalPath)"

definition saveToCache ::
  "env \<Rightarrow> CompressionCacheManagerImpl \<Rightarrow> filesystem \<Rightarrow> path \<Rightarrow> string \<Rightarrow> nat \<Rightarrow> bytes \<Rightarrow> json
     \<Rightarrow> error + (CompressionCacheManagerImpl \<times> filesystem)" where
  "saveToCache E m fs originalPath originalHash originalLength compressedContent usedSettings =
     (case writeFileSync fs (cachedFilePath m originalPath originalHash) compressedContent of
        Inl e \<Rightarrow> Inl e
      | Inr fs1 \<Rightarrow>
          (let entry = \<lparr>sourceHash = originalHash,
                        compressedPath = cachedFilePath m originalPath originalHash,
                        timestamp = date_now E,
                        settings = usedSettings,
                        size_original = originalLength,
                        size_compressed = length compressedContent\<rparr>
           in Inr (m\<lparr>manifest := (manifest m)\<lparr>entries := (entries (manifest m))(originalPath \<mapsto> entry)\<rparr>\<rparr>,
                   fs1)))"

section \<open>Configuration and the format resolver (\<open>defaultConfig.ts\<close>, \<open>index.ts\<close>)\<close>

type_synonym js_object = "(string \<times> json) list"

definition defaultCacheDir :: string where
  "defaultCacheDir = ''node_modules/.astro/.gab-astro-compress''"

definition defaultConfig :: js_object where
  "defaultConfig =
     [(''cache'', JObj [(''enabled'', JBool True), (''cacheDir'', JStr defaultCacheDir)]),
      (''png'', JObj [(''compressionLevel'', JNum 9), (''palette'', JBool True)]),
      (''jpeg'', JObj [(''mozjpeg'', JBool True), (''trellisQuantisation'', JBool True),
                      (''overshootDeringing'', JBool True), (''optimizeScans'', JBool True)]),
      (''webp'', JObj [(''effort'', JNum 6)]),
      (''avif'', JObj [(''effort'', JNum 9), (''lossless'', JBool True)]),
      (''heif'', JObj [(''effort'', JNum 9), (''lossless'', JBool True)]),
      (''html'', JObj [(''collapseWhitespace'', JBool True), (''removeComments'', JBool True),
                      (''minifyCSS'', JBool True), (''minifyJS'', JBool True),
                      (''continueOnParseError'', JBool True)]),
      (''js'', JObj [(''compress'', JBool True), (''mangle'', JBool True)]),
      (''svg'', JObj [(''multipass'', JBool True)]),
      (''css'', JObj [])]"

text \<open>\<open>obj[k]\<close>, and the object spread \<open>{...a, ...b}\<close>: a key of \<open>b\<close> replaces the
  value of the same key of \<open>a\<close> in place, a new key is appended. Spreading
  \<open>undefined\<close> adds nothing.\<close>

definition obj_get :: "js_object \<Rightarrow> string \<Rightarrow> json" where
  "obj_get obj k = (case map_of obj k of None \<Rightarrow> JUndefined | Some v \<Rightarrow> v)"

definition js_spread :: "js_object \<Rightarrow> js_object \<Rightarrow> js_object" where
  "js_spread a b = fold (\<lambda>kv acc. AList.update (fst kv) (snd kv) acc) b a"

definition own_properties :: "json \<Rightarrow> js_object" where
  "own_properties v = (case v of JObj kvs \<Rightarrow> kvs | _ \<Rightarrow> [])"

definition merged_formats :: "string list" where
  "merged_formats = [''png'', ''jpeg'', ''webp'', ''avif'', ''heif'', ''html'', ''js'', ''svg'']"

definition compressionConfig :: "js_object \<Rightarrow> js_object" where
  "compressionConfig options =
     fold (\<lambda>k acc. AList.update k
              (JObj (js_spread (own_properties (obj_get defaultConfig k))
                               (own_properties (obj_get options k)))) acc)
          merged_formats (js_spread defaultConfig options)"

fun js_truthy :: "json \<Rightarrow> bool" where
  "js_truthy JNull = False"
| "js_truthy JUndefined = False"
| "js_truthy (JBool b) = b"
| "js_truthy (JNum i) = (i \<noteq> 0)"
| "js_truthy (JStr s) = (s \<noteq> [])"
| "js_truthy (JArr xs) = True"
| "js_truthy (JObj kvs) = True"

text \<open>\<open>compressionConfig.cache?.enabled\<close> and
  \<open>compressionConfig.cache?.cacheDir || defaultCacheDir\<close> (typed as a string).\<close>

definition cache_enabled :: "js_object \<Rightarrow> bool" where
  "cache_enabled cfg = js_truthy (obj_get (own_properties (obj_get cfg ''cache'')) ''enabled'')"

definition cache_dir_setting :: "js_object \<Rightarrow> string" where
  "cache_dir_setting cfg =
     (case obj_get (own_properties (obj_get cfg ''cache'')) ''cacheDir'' of
        JStr s \<Rightarrow> if s \<noteq> [] then s else defaultCacheDir
      | _ \<Rightarrow> defaultCacheDir)"

definition ascii_lower :: "char \<Rightarrow> char" where
  "ascii_lower c =
     (if (65::nat) \<le> of_char c \<and> (of_char c :: nat) \<le> 90 then char_of (of_char c + (32::nat)) else c)"

definition toLowerCase :: "string \<Rightarrow> string" where
  "toLowerCase s = map ascii_lower s"

definition configAliases :: "(string \<times> string list) list" where
  "configAliases = [(''js'', [''mjs'', ''cjs'']), (''jpeg'', [''jpg'']), (''tiff'', [''tif''])]"

definition getAliasForExtension :: "string \<Rightarrow> string option" where
  "getAliasForExtension extension =
     map_option fst (find (\<lambda>ka. extension \<in> set (snd ka)) configAliases)"

text \<open>
  \<open>k in obj\<close> also holds for the properties every object inherits; of those only
  \<open>constructor\<close> and \<open>__proto__\<close> are written in lower case. The first is a function
  (left out by \<open>JSON.stringify\<close>), the second an object without own properties.
\<close>

definition inherited_properties :: js_object where
  "inherited_properties = [(''constructor'', JUndefined), (''__proto__'', JObj [])]"

definition js_in :: "string \<Rightarrow> js_object \<Rightarrow> bool" where
  "js_in k obj = (k \<in> set (map fst obj) \<or> k \<in> set (map fst inherited_properties))"

definition js_index :: "js_object \<Rightarrow> string \<Rightarrow> json" where
  "js_index obj k = obj_get (obj @ inherited_properties) k"

text \<open>\<open>getUsedConfig\<close>: \<open>None\<close> is \<open>null\<close>, otherwise the pair of \<open>config\<close> and \<open>format\<close>.\<close>

definition getUsedConfig :: "js_object \<Rightarrow> path \<Rightarrow> (json \<times> string) option" where
  "getUsedConfig cfg filePath =
     (let fileExtension = last_segment (toLowerCase filePath);
          configKey = (if js_in fileExtension cfg then Some fileExtension
                       else getAliasForExtension fileExtension)
      in case configKey of
           None \<Rightarrow> None
         | Some k \<Rightarrow> if k = [] then None else Some (js_index cfg k, k))"

definition used_json :: "(json \<times> string) option \<Rightarrow> json" where
  "used_json u =
     (case u of None \<Rightarrow> JNull | Some (c, f) \<Rightarrow> JObj [(''config'', c), (''format'', JStr f)])"

section \<open>Processing one file (\<open>processFile\<close>)\<close>

text \<open>The failure reasons are strings, compared as strings.\<close>

definition BiggerSize :: string where
  "BiggerSize = ''compressed size is greater than original size''"

definition UnknowMediaFormat :: string where
  "UnknowMediaFormat = ''unknown media format''"

definition NoOutput :: string where
  "NoOutput = ''compression produced no output''"

definition Skipped :: string where
  "Skipped = ''Skipped''"

text \<open>\<open>String(error)\<close> for the errors of the model.\<close>

fun error_text :: "error \<Rightarrow> string" where
  "error_text (ENOENT p) = ''Error: ENOENT: no such file or directory '' @ p"
| "error_text (EISDIR p) = ''Error: EISDIR: illegal operation on a directory '' @ p"
| "error_text (EEXIST p) = ''Error: EEXIST: file already exists '' @ p"
| "error_text (ENOTDIR p) = ''Error: ENOTDIR: not a directory '' @ p"
| "error_text SyntaxError = ''SyntaxError''"
| "error_text TypeError = ''TypeError''"
| "error_text (Thrown t) = t"

record world =
  disk :: filesystem
  cacheManager :: "CompressionCacheManagerImpl option"
  originalSizeTotal :: nat
  newSizeTotal :: nat
  processedFiles :: nat
  skippedFiles :: nat
  cacheHits :: nat

record process_result =
  processed :: bool
  reason :: string
  originalSize :: nat
  newSize :: nat
  usedConfig :: json

text \<open>A compressed result is a string (the minifiers) or a \<open>Buffer\<close> (sharp).\<close>

datatype content = Text jsstring | Buffer bytes

definition content_length :: "content \<Rightarrow> nat" where
  "content_length c = (case c of Text s \<Rightarrow> length s | Buffer b \<Rightarrow> length b)"

definition content_bytes :: "content \<Rightarrow> bytes" where
  "content_bytes c = (case c of Text s \<Rightarrow> utf8_encode s | Buffer b \<Rightarrow> b)"

text \<open>The test of a path against \<open>/\.(e1|e2|...)$/i\<close>.\<close>

definition ends_with :: "string \<Rightarrow> string \<Rightarrow> bool" where
  "ends_with s p = (length s \<le> length p \<and> drop (length p - length s) p = s)"

definition regex_ext_test :: "string list \<Rightarrow> path \<Rightarrow> bool" where
  "regex_ext_test exts p = (\<exists>e \<in> set exts. ends_with (''.'' @ e) (toLowerCase p))"

definition image_exts :: "string list" where
  "image_exts = [''jpg'', ''jpeg'', ''png'', ''webp'', ''tif'', ''tiff'', ''avif'', ''heif'']"

definition html_exts :: "string list" where
  "html_exts = [''html'', ''htm'']"

definition js_exts :: "string list" where
  "js_exts = [''js'', ''mjs'']"

definition svg_exts :: "string list" where
  "svg_exts = [''svg'']"

definition css_exts :: "string list" where
  "css_exts = [''css'', ''scss'', ''sass'', ''less'']"

definition formatConfig_keys :: "string list" where
  "formatConfig_keys = [''png'', ''jpeg'', ''webp'', ''avif'', ''heif'']"

text \<open>
  \<open>handleCompressedResult\<close>: the triple is \<open>processed\<close>, \<open>reason\<close> and \<open>newSize\<close>.
  An error is what \<open>writeFileSync\<close> or \<open>statSync\<close> throws.
\<close>

definition handleCompressedResult ::
  "world \<Rightarrow> path \<Rightarrow> nat \<Rightarrow> content \<Rightarrow> error + (bool \<times> string \<times> nat) \<times> world" where
  "handleCompressedResult w filePath origSize compressedContent =
     (if content_length compressedContent < origSize then
        (case writeFileSync (disk w) filePath (content_bytes compressedContent) of
           Inl e \<Rightarrow> Inl e
         | Inr d \<Rightarrow>
             (case statSync_size d filePath of
                Inl e \<Rightarrow> Inl e
              | Inr n \<Rightarrow>
                  Inr ((True, [], n),
                       w\<lparr>disk := d,
                         originalSizeTotal := originalSizeTotal w + origSize,
                         newSizeTotal := newSizeTotal w + n\<rparr>)))
      else Inr ((False, BiggerSize, 0), w))"

definition finish ::
  "nat \<Rightarrow> json \<Rightarrow> (bool \<times> string \<times> nat) \<times> world \<Rightarrow> process_result \<times> world" where
  "finish origSize used r =
     (case r of ((p, why, n), w) \<Rightarrow>
        (\<lparr>processed = p, reason = why, originalSize = origSize, newSize = n, usedConfig = used\<rparr>, w))"

text \<open>The outer \<open>catch\<close>: not processed, the reason is \<open>String(error)\<close>, \<open>newSize\<close> still 0.\<close>

definition caught :: "world \<Rightarrow> nat \<Rightarrow> json \<Rightarrow> error \<Rightarrow> process_result \<times> world" where
  "caught w origSize used e = finish origSize used ((False, error_text e, 0), w)"

definition handleError :: "world \<Rightarrow> nat \<Rightarrow> json \<Rightarrow> string \<Rightarrow> process_result \<times> world" where
  "handleError w origSize used processType =
     (\<lparr>processed = False, reason = toLowerCase processType @ '' failed'',
       originalSize = origSize, newSize = origSize, usedConfig = used\<rparr>, w)"

definition nonempty_text :: "jsstring option \<Rightarrow> jsstring option" where
  "nonempty_text code = (case code of None \<Rightarrow> None | Some s \<Rightarrow> if s = [] then None else Some s)"

definition process_image ::
  "env \<Rightarrow> js_object \<Rightarrow> world \<Rightarrow> path \<Rightarrow> nat \<Rightarrow> json \<Rightarrow> process_result \<times> world" where
  "process_image E cfg w filePath origSize used =
     (case readFileSync (disk w) filePath of
        Inl e \<Rightarrow> caught w origSize used e
      | Inr input \<Rightarrow>
          (case sharp_metadata_format E input of
             Throws t \<Rightarrow> caught w origSize used (Thrown t)
           | Returns fmt \<Rightarrow>
               (case fmt of
                  None \<Rightarrow> finish origSize used ((False, UnknowMediaFormat, 0), w)
                | Some f \<Rightarrow>
                    if f \<noteq> [] \<and> f \<in> set formatConfig_keys then
                      (case sharp_toBuffer E f (obj_get cfg f) input of
                         Throws t \<Rightarrow> caught w origSize used (Thrown t)
                       | Returns compressedFile \<Rightarrow>
                           (case handleCompressedResult w filePath origSize (Buffer compressedFile) of
                              Inl e \<Rightarrow> caught w origSize used e
                            | Inr r \<Rightarrow> finish origSize used r))
                    else finish origSize used ((False, UnknowMediaFormat, 0), w))))"

definition process_html ::
  "env \<Rightarrow> js_object \<Rightarrow> world \<Rightarrow> path \<Rightarrow> nat \<Rightarrow> json \<Rightarrow> process_result \<times> world" where
  "process_html E cfg w filePath origSize used =
     (case readFileSync (disk w) filePath of
        Inl e \<Rightarrow> caught w origSize used e
      | Inr input \<Rightarrow>
          (case html_minify E (utf8_decode E input) (obj_get cfg ''html'') of
             Throws t \<Rightarrow> caught w origSize used (Thrown t)
           | Returns minifiedHtml \<Rightarrow>
               (case handleCompressedResult w filePath origSize (Text minifiedHtml) of
                  Inl e \<Rightarrow> caught w origSize used e
                | Inr r \<Rightarrow> finish origSize used r)))"

definition process_js ::
  "env \<Rightarrow> js_object \<Rightarrow> world \<Rightarrow> path \<Rightarrow> nat \<Rightarrow> json \<Rightarrow> process_result \<times> world" where
  "process_js E cfg w filePath origSize used =
     (case readFileSync (disk w) filePath of
        Inl e \<Rightarrow> caught w origSize used e
      | Inr input \<Rightarrow>
          (case terser_minify E (utf8_decode E input) (obj_get cfg ''js'') of
             Throws t \<Rightarrow> handleError w origSize used ''JavaScript minification''
           | Returns minifiedJs \<Rightarrow>
               (case nonempty_text minifiedJs of
                  None \<Rightarrow> finish origSize used ((False, NoOutput, 0), w)
                | Some code \<Rightarrow>
                    (case handleCompressedResult w filePath origSize (Text code) of
                       Inl e \<Rightarrow> handleError w origSize used ''JavaScript minification''
                     | Inr r \<Rightarrow> finish origSize used r))))"

definition process_svg ::
  "env \<Rightarrow> js_object \<Rightarrow> world \<Rightarrow> path \<Rightarrow> nat \<Rightarrow> json \<Rightarrow> process_result \<times> world" where
  "process_svg E cfg w filePath origSize used =
     (case readFileSync (disk w) filePath of
        Inl e \<Rightarrow> caught w origSize used e
      | Inr input \<Rightarrow>
          (case svgo_optimize E filePath (utf8_decode E input) (obj_get cfg ''svg'') of
             Throws t \<Rightarrow> handleError w origSize used ''SVG optimization''
           | Returns optimizedSvg \<Rightarrow>
               (case nonempty_text (Some optimizedSvg) of
                  None \<Rightarrow> finish origSize used ((False, NoOutput, 0), w)
                | Some svgData \<Rightarrow>
                    (case handleCompressedResult w filePath origSize (Text svgData) of
                       Inl e \<Rightarrow> handleError w origSize used ''SVG optimization''
                     | Inr r \<Rightarrow> finish origSize used r))))"

definition process_css ::
  "env \<Rightarrow> js_object \<Rightarrow> world \<Rightarrow> path \<Rightarrow> nat \<Rightarrow> json \<Rightarrow> process_result \<times> world" where
  "process_css E cfg w filePath origSize used =
     (case readFileSync (disk w) filePath of
        Inl e \<Rightarrow> caught w origSize used e
      | Inr input \<Rightarrow>
          (case csso_minify E (utf8_decode E input) (obj_get cfg ''css'') of
             Throws t \<Rightarrow> caught w origSize used (Thrown t)
           | Returns minifyed \<Rightarrow>
               (case nonempty_text (Some minifyed) of
                  None \<Rightarrow> finish origSize used ((False, NoOutput, 0), w)
                | Some css \<Rightarrow>
                    (case handleCompressedResult w filePath origSize (Text css) of
                       Inl e \<Rightarrow> caught w origSize used e
                     | Inr r \<Rightarrow> finish origSize used r))))"

text \<open>
  \<open>processFile\<close>: \<open>Inl\<close> is a rejected promise (\<open>statSync\<close> is outside the \<open>try\<close>).
\<close>

definition processFile ::
  "env \<Rightarrow> js_object \<Rightarrow> world \<Rightarrow> path \<Rightarrow> error + process_result \<times> world" where
  "processFile E cfg w filePath =
     (case statSync_size (disk w) filePath of
        Inl e \<Rightarrow> Inl e
      | Inr origSize \<Rightarrow>
          (let used = used_json (getUsedConfig cfg filePath) in
           Inr (if regex_ext_test image_exts filePath then process_image E cfg w filePath origSize used
                else if regex_ext_test html_exts filePath then process_html E cfg w filePath origSize used
                else if regex_ext_test js_exts filePath then process_js E cfg w filePath origSize used
                else if regex_ext_test svg_exts filePath then process_svg E cfg w filePath origSize used
                else if regex_ext_test css_exts filePath then process_css E cfg w filePath origSize used
                else finish origSize used ((False, Skipped, 0), w))))"

section \<open>The hooks (\<open>astro:config:done\<close>, \<open>astro:build:done\<close>)\<close>

text \<open>
  The tasks of the candidates are modelled on the sequential schedule: the task of one
  candidate, with the callback that follows \<open>processFile\<close>, finishes before the next
  candidate is looked at. A step returns the world it leaves and the error that ends
  the hook, if any.
\<close>

definition restore_from_cache :: "world \<Rightarrow> path \<Rightarrow> CacheEntry \<Rightarrow> world \<times> error option" where
  "restore_from_cache w candidate cachedFile =
     (case readFileSync (disk w) (compressedPath cachedFile) of
        Inl e \<Rightarrow> (w, Some e)
      | Inr compressedContent \<Rightarrow>
          (case writeFileSync (disk w) candidate compressedContent of
             Inl e \<Rightarrow> (w, Some e)
           | Inr d \<Rightarrow>
               (w\<lparr>disk := d,
                  originalSizeTotal := originalSizeTotal w + size_original cachedFile,
                  newSizeTotal := newSizeTotal w + size_compressed cachedFile,
                  cacheHits := cacheHits w + 1\<rparr>, None)))"

definition store_result ::
  "env \<Rightarrow> world \<Rightarrow> CompressionCacheManagerImpl \<Rightarrow> path \<Rightarrow> string \<Rightarrow> nat \<Rightarrow> process_result
     \<Rightarrow> world \<times> error option" where
  "store_result E w m candidate sourceOriginalHash originalLength result =
     (case readFileSync (disk w) candidate of
        Inl e \<Rightarrow> (w, Some e)
      | Inr compressedContent \<Rightarrow>
          (case saveToCache E m (disk w) candidate sourceOriginalHash originalLength
                  compressedContent (usedConfig result) of
             Inl e \<Rightarrow> (w\<lparr>processedFiles := processedFiles w + 1\<rparr>, Some e)
           | Inr (m1, d) \<Rightarrow>
               (w\<lparr>disk := d, cacheManager := Some m1,
                  processedFiles := processedFiles w + 1\<rparr>, None)))"

definition process_candidate_cached ::
  "env \<Rightarrow> js_object \<Rightarrow> world \<Rightarrow> path \<Rightarrow> world \<times> error option" where
  "process_candidate_cached E cfg w candidate =
     (case readFileSync (disk w) candidate of
        Inl e \<Rightarrow> (w, Some e)
      | Inr originalContent \<Rightarrow>
          (case cacheManager w of
             None \<Rightarrow> (w, Some TypeError)
           | Some m \<Rightarrow>
               (case getCachedFile m (disk w) candidate (sha256_hex E originalContent)
                       (used_json (getUsedConfig cfg candidate)) of
                  (Some cachedFile, m1, d1) \<Rightarrow>
                    restore_from_cache (w\<lparr>disk := d1, cacheManager := Some m1\<rparr>) candidate cachedFile
                | (None, m1, d1) \<Rightarrow>
                    (case processFile E cfg (w\<lparr>disk := d1, cacheManager := Some m1\<rparr>) candidate of
                       Inl e \<Rightarrow> (w\<lparr>disk := d1, cacheManager := Some m1\<rparr>, Some e)
                     | Inr (result, w2) \<Rightarrow>
                         if processed result \<or> reason result = BiggerSize
                         then store_result E w2 m1 candidate (sha256_hex E originalContent)
                                (length originalContent) result
                         else (w2\<lparr>skippedFiles := skippedFiles w2 + 1\<rparr>, None)))))"

definition process_candidate_uncached ::
  "env \<Rightarrow> js_object \<Rightarrow> world \<Rightarrow> path \<Rightarrow> world \<times> error option" where
  "process_candidate_uncached E cfg w candidate =
     (case processFile E cfg w candidate of
        Inl e \<Rightarrow> (w, Some e)
      | Inr (result, w2) \<Rightarrow>
          if processed result
          then (w2\<lparr>processedFiles := processedFiles w2 + 1\<rparr>, None)
          else (w2\<lparr>skippedFiles := skippedFiles w2 + 1\<rparr>, None))"

definition process_candidate ::
  "env \<Rightarrow> js_object \<Rightarrow> world \<Rightarrow> path \<Rightarrow> world \<times> error option" where
  "process_candidate E cfg w candidate =
     (if cache_enabled cfg then process_candidate_cached E cfg w candidate
      else process_candidate_uncached E cfg w candidate)"

fun process_candidates ::
  "env \<Rightarrow> js_object \<Rightarrow> world \<Rightarrow> path list \<Rightarrow> world \<times> error option" where
  "process_candidates E cfg w [] = (w, None)"
| "process_candidates E cfg w (candidate # rest) =
     (case process_candidate E cfg w candidate of
        (w1, None) \<Rightarrow> process_candidates E cfg w1 rest
      | (w1, Some e) \<Rightarrow> (w1, Some e))"

text \<open>The hook \<open>astro:config:done\<close>; \<open>root\<close> is \<open>config.root.pathname\<close>.\<close>

definition config_done :: "env \<Rightarrow> js_object \<Rightarrow> path \<Rightarrow> world \<Rightarrow> world \<times> error option" where
  "config_done E cfg root w =
     (if cache_enabled cfg then
        (case initialize E (new_manager (path_join root (cache_dir_setting cfg))) (disk w) of
           (m, d, err) \<Rightarrow> (w\<lparr>disk := d, cacheManager := Some m\<rparr>, err))
      else (w, None))"

text \<open>The hook \<open>astro:build:done\<close>; \<open>candidates\<close> is what \<open>traverseDirectory(dir)\<close>
  returned.\<close>

definition build_done :: "env \<Rightarrow> js_object \<Rightarrow> path list \<Rightarrow> world \<Rightarrow> world \<times> error option" where
  "build_done E cfg candidates w =
     (case process_candidates E cfg w candidates of
        (w1, Some e) \<Rightarrow> (w1, Some e)
      | (w1, None) \<Rightarrow>
          if cache_enabled cfg then
            (case cacheManager w1 of
               None \<Rightarrow> (w1, Some TypeError)
             | Some m \<Rightarrow>
                 (case saveManifest E m (disk w1) of
                    Inl e \<Rightarrow> (w1, Some e)
                  | Inr d \<Rightarrow> (w1\<lparr>disk := d\<rparr>, None)))
          else (w1, None))"

text \<open>One build: a new integration (counters at zero), then both hooks.\<close>

definition new_integration :: "filesystem \<Rightarrow> world" where
  "new_integration fs =
     \<lparr>disk = fs, cacheManager = None, originalSizeTotal = 0, newSizeTotal = 0,
      processedFiles = 0, skippedFiles = 0, cacheHits = 0\<rparr>"

definition run_build ::
  "env \<Rightarrow> js_object \<Rightarrow> path \<Rightarrow> path list \<Rightarrow> filesystem \<Rightarrow> world \<times> error option" where
  "run_build E options root candidates fs =
     (case config_done E (compressionConfig options) root (new_integration fs) of
        (w, Some e) \<Rightarrow> (w, Some e)
      | (w, None) \<Rightarrow> build_done E (compressionConfig options) candidates w)"

section \<open>The structural equality the specification asks for\<close>

text \<open>
  Deep equality of two settings values, independent of the order of the keys of an
  object: two objects are equal when they have the same keys and equal values under
  each key. This definition follows the words of the specification; the code compares
  \<open>JSON_stringify\<close> of the two values.
\<close>

function (sequential) deep_equal :: "json \<Rightarrow> json \<Rightarrow> bool" where
  "deep_equal (JArr xs) (JArr ys) =
     (length xs = length ys \<and> (\<forall>xy \<in> set (zip xs ys). deep_equal (fst xy) (snd xy)))"
| "deep_equal (JObj a) (JObj b) =
     (set (map fst a) = set (map fst b) \<and>
      (\<forall>kv \<in> set a. case map_of b (fst kv) of
                        None \<Rightarrow> False
                      | Some w \<Rightarrow> deep_equal (snd kv) w))"
| "deep_equal JNull v = (v = JNull)"
| "deep_equal JUndefined v = (v = JUndefined)"
| "deep_equal (JBool x) v = (v = JBool x)"
| "deep_equal (JNum x) v = (v = JNum x)"
| "deep_equal (JStr x) v = (v = JStr x)"
| "deep_equal (JArr xs) v = False"
| "deep_equal (JObj a) v = False"
  by pat_completeness auto
termination
proof (relation "measure (\<lambda>p. size (fst p))")
  show "wf (measure (\<lambda>p. size (fst p)))" by simp
next
  fix xs ys :: "json list" and xy
  assume "xy \<in> set (zip xs ys)"
  then have "fst xy \<in> set xs" by (metis prod.collapse set_zip_leftD)
  then have "size (fst xy) \<le> size_list size xs" by (rule size_list_estimation') simp
  then show "((fst xy, snd xy), JArr xs, JArr ys) \<in> measure (\<lambda>p. size (fst p))" by simp
next
  fix a b :: "(string \<times> json) list" and kv w
  assume "kv \<in> set a"
  then have "size (snd kv) \<le> size_list (size_prod (\<lambda>x. 0) size) a"
    by (rule size_list_estimation') (cases kv, simp)
  then show "((snd kv, w), JObj a, JObj b) \<in> measure (\<lambda>p. size (fst p))" by simp
qed

section \<open>Sample inputs\<close>

text \<open>A cache directory \<open>/r/cache\<close> holding one artifact, and a manifest with the entry
  of \<open>/r/dist/a.css\<close> that points to it.\<close>

definition css_settings :: json where
  "css_settings = JObj [(''config'', JObj []), (''format'', JStr ''css'')]"

definition sample_entry :: CacheEntry where
  "sample_entry =
     \<lparr>sourceHash = ''ab12'', compressedPath = ''/r/cache/ab12.css'', timestamp = 1,
      settings = css_settings, size_original = 40, size_compressed = 7\<rparr>"

definition sample_manager :: CompressionCacheManagerImpl where
  "sample_manager =
     \<lparr>cacheDir = ''/r/cache'',
      manifest = \<lparr>version = ''1'', entries = [''/r/dist/a.css'' \<mapsto> sample_entry]\<rparr>\<rparr>"

definition sample_fs :: filesystem where
  "sample_fs =
     [''/r'' \<mapsto> Dir, ''/r/cache'' \<mapsto> Dir, ''/r/cache/ab12.css'' \<mapsto> File ''a{b:c}'',
      ''/r/dist'' \<mapsto> Dir]"

text \<open>
  Stand-ins for the libraries: the digest writes every byte as two hexadecimal digits
  (so it is injective), the decoder reads UTF-8 sequences of one and two bytes, the
  minifiers delete the spaces, and sharp recognises every input as PNG and drops the
  first byte.
\<close>

definition hex_dump :: "bytes \<Rightarrow> string" where
  "hex_dump b = concat (map (\<lambda>c. [hex_char (of_char c div 16), hex_char (of_char c mod 16)]) b)"

fun decode_short :: "bytes \<Rightarrow> jsstring" where
  "decode_short [] = []"
| "decode_short [c] = [of_nat (of_char c)]"
| "decode_short (c # d # cs) =
     (if (192::nat) \<le> of_char c
      then of_nat ((of_char c - 192) * 64 + (of_char d - 128)) # decode_short cs
      else of_nat (of_char c) # decode_short (d # cs))"

definition drop_spaces :: "jsstring \<Rightarrow> jsstring" where
  "drop_spaces s = filter (\<lambda>u. u \<noteq> 32) s"

definition sample_env :: env where
  "sample_env =
     \<lparr>sha256_hex = hex_dump,
      date_now = 1700000000000,
      manifest_stringify = (\<lambda>m. ''manifest version '' @ version m),
      manifest_parse = (\<lambda>b. None),
      utf8_decode = decode_short,
      sharp_metadata_format = (\<lambda>b. Returns (Some ''png'')),
      sharp_toBuffer = (\<lambda>f c b. Returns (drop 1 b)),
      html_minify = (\<lambda>s c. Returns (drop_spaces s)),
      terser_minify = (\<lambda>s c. Returns (Some (drop_spaces s))),
      svgo_optimize = (\<lambda>p s c. Returns (drop_spaces s)),
      csso_minify = (\<lambda>s c. Returns (drop_spaces s))\<rparr>"

text \<open>Two settings values with the same keys and values, the keys of \<open>config\<close> in a
  different order.\<close>

definition css_settings_rc :: json where
  "css_settings_rc =
     JObj [(''config'', JObj [(''restructure'', JBool False), (''comments'', JBool False)]),
           (''format'', JStr ''css'')]"

definition css_settings_cr :: json where
  "css_settings_cr =
     JObj [(''config'', JObj [(''comments'', JBool False), (''restructure'', JBool False)]),
           (''format'', JStr ''css'')]"

definition sample_manager_rc :: CompressionCacheManagerImpl where
  "sample_manager_rc =
     \<lparr>cacheDir = ''/r/cache'',
      manifest = \<lparr>version = ''1'',
                  entries = [''/r/dist/a.css'' \<mapsto> sample_entry\<lparr>settings := css_settings_rc\<rparr>]\<rparr>\<rparr>"

text \<open>The settings of the sample entry with the keys \<open>format\<close> and \<open>config\<close> in the
  other order.\<close>

definition css_settings_fc :: json where
  "css_settings_fc = JObj [(''format'', JStr ''css''), (''config'', JObj [])]"

text \<open>A file system where a regular file sits at the path of the cache directory.\<close>

definition blocked_fs :: filesystem where
  "blocked_fs = [''/r'' \<mapsto> Dir, ''/r/cache'' \<mapsto> File ''x'', ''/r/dist'' \<mapsto> Dir]"

definition fresh_fs :: filesystem where
  "fresh_fs = [''/r'' \<mapsto> Dir, ''/r/dist'' \<mapsto> Dir]"

definition cache_in_r :: js_object where
  "cache_in_r = [(''cache'', JObj [(''enabled'', JBool True), (''cacheDir'', JStr ''cache'')])]"

definition cache_off :: js_object where
  "cache_off = [(''cache'', JObj [(''enabled'', JBool False)])]"

text \<open>A path that one of the five patterns of \<open>processFile\<close> matches.\<close>

definition matches_a_pattern :: "path \<Rightarrow> bool" where
  "matches_a_pattern p =
     (regex_ext_test image_exts p \<or> regex_ext_test html_exts p \<or> regex_ext_test js_exts p
      \<or> regex_ext_test svg_exts p \<or> regex_ext_test css_exts p)"

text \<open>
  The two outcomes of \<open>processFile\<close> on a file of \<open>n\<close> bytes: processed, with the
  file overwritten by a result whose \<open>length\<close> is below \<open>n\<close> and the totals updated, or
  not processed, with the world as it was.
\<close>

definition outcome_ok :: "world \<Rightarrow> path \<Rightarrow> nat \<Rightarrow> json \<Rightarrow> process_result \<times> world \<Rightarrow> bool" where
  "outcome_ok w p n u r =
     (originalSize (fst r) = n \<and> usedConfig (fst r) = u \<and>
      (if processed (fst r)
       then \<exists>c. content_length c < n \<and> newSize (fst r) = length (content_bytes c)
              \<and> snd r = w\<lparr>disk := (disk w)(p \<mapsto> File (content_bytes c)),
                          originalSizeTotal := originalSizeTotal w + n,
                          newSizeTotal := newSizeTotal w + length (content_bytes c)\<rparr>
       else snd r = w))"

text \<open>A style sheet of nine bytes whose text has eight characters (one of them, U+00E9,
  takes two bytes), and a page with the extension \<open>htm\<close>.\<close>

definition accented_css :: bytes where
  "accented_css = ''a{b:'' @ [CHR 0x22, CHR 0xC3, CHR 0xA9, CHR 0x22] @ ''}''"

definition accented_fs :: filesystem where
  "accented_fs = [''/r'' \<mapsto> Dir, ''/r/dist'' \<mapsto> Dir, ''/r/dist/a.css'' \<mapsto> File accented_css]"



text \<open>
  Between two states of the file system, every path holds what it held before, or it
  held a regular file that a pattern of \<open>processFile\<close> matches and holds a regular file
  again.
\<close>

definition only_rewrites :: "filesystem \<Rightarrow> filesystem \<Rightarrow> bool" where
  "only_rewrites fs fs1 =
     (\<forall>q. fs1 q = fs q
          \<or> (matches_a_pattern q \<and> (\<exists>b c. fs q = Some (File b) \<and> fs1 q = Some (File c))))"

definition two_pages_fs :: filesystem where
  "two_pages_fs =
     [''/r'' \<mapsto> Dir, ''/r/dist'' \<mapsto> Dir, ''/r/dist/p.htm'' \<mapsto> File ''<p> x </p>'',
      ''/r/dist/notes.txt'' \<mapsto> File ''a  b'']"

text \<open>A build directory with a minimal style sheet and a blank one, an existing cache
  directory, and a csso that throws.\<close>

definition cached_fs :: filesystem where
  "cached_fs =
     [''/r'' \<mapsto> Dir, ''/r/cache'' \<mapsto> Dir, ''/r/dist'' \<mapsto> Dir,
      ''/r/dist/b.css'' \<mapsto> File ''b{c:d}'', ''/r/dist/e.css'' \<mapsto> File [CHR 0x20, CHR 0x20]]"

definition cached_world :: world where
  "cached_world = (new_integration cached_fs)\<lparr>cacheManager := Some (new_manager ''/r/cache'')\<rparr>"

definition failing_env :: env where
  "failing_env = sample_env\<lparr>csso_minify := (\<lambda>s c. Throws ''parse error'')\<rparr>"

section \<open>Notions for comparing two builds\<close>

text \<open>
  The bytes of a regular file; the name \<open>saveToCache\<close> gives the artifact of a
  candidate whose bytes are those of \<open>fs\<close>; the result record \<open>processFile\<close> returns
  for a file with given bytes (it does not depend on the rest of the world); and the
  candidates the callback of the cache-enabled branch stores in the cache.
\<close>

definition file_bytes :: "filesystem \<Rightarrow> path \<Rightarrow> bytes" where
  "file_bytes fs p = (case fs p of Some (File b) \<Rightarrow> b | _ \<Rightarrow> [])"

definition artifact_path :: "env \<Rightarrow> path \<Rightarrow> filesystem \<Rightarrow> path \<Rightarrow> path" where
  "artifact_path E dir fs p =
     path_join dir (sha256_hex E (file_bytes fs p) @ ''.'' @ last_segment p)"

definition probe :: "path \<Rightarrow> bytes \<Rightarrow> world" where
  "probe p b = new_integration [p \<mapsto> File b]"

definition attempt :: "env \<Rightarrow> js_object \<Rightarrow> path \<Rightarrow> bytes \<Rightarrow> process_result" where
  "attempt E cfg p b =
     (case processFile E cfg (probe p b) p of
        Inr r \<Rightarrow> fst r
      | Inl e \<Rightarrow> \<lparr>processed = False, reason = error_text e, originalSize = 0, newSize = 0,
                  usedConfig = JNull\<rparr>)"

definition cacheable :: "env \<Rightarrow> js_object \<Rightarrow> filesystem \<Rightarrow> path \<Rightarrow> bool" where
  "cacheable E cfg fs p =
     (processed (attempt E cfg p (file_bytes fs p))
      \<or> reason (attempt E cfg p (file_bytes fs p)) = BiggerSize)"

text \<open>
  What a build that started from the files \<open>fs0\<close> with an empty manifest has left for
  a candidate: a cacheable one has its manifest entry, and the candidate and its
  artifact hold the same bytes; any other has no entry and its original bytes.
\<close>

definition settled ::
  "env \<Rightarrow> js_object \<Rightarrow> path \<Rightarrow> filesystem \<Rightarrow> CompressionCache \<Rightarrow> filesystem \<Rightarrow> path \<Rightarrow> bool" where
  "settled E cfg dir fs0 mf d p =
     (if cacheable E cfg fs0 p
      then \<exists>e c. entries mf p = Some e
             \<and> sourceHash e = sha256_hex E (file_bytes fs0 p)
             \<and> settings e = used_json (getUsedConfig cfg p)
             \<and> compressedPath e = artifact_path E dir fs0 p
             \<and> d (artifact_path E dir fs0 p) = Some (File c)
             \<and> d p = Some (File c)
      else entries mf p = None \<and> d p = fs0 p)"

text \<open>
  The candidates and the cache are apart. The six conditions, in the order of the
  definition: the candidates are pairwise distinct paths; each of them is a regular
  file; no two of them have the same artifact name, that is, the same hash of their
  bytes together with the same final extension (two such candidates share one
  artifact, and the build that restores one of them from the cache restores the
  output of the other); no artifact is itself a candidate; no artifact has the path of
  the manifest; the manifest is not a candidate.
\<close>

definition well_separated :: "env \<Rightarrow> path \<Rightarrow> filesystem \<Rightarrow> path list \<Rightarrow> bool" where
  "well_separated E dir fs0 cs =
     (distinct cs
      \<and> (\<forall>p \<in> set cs. \<exists>b. fs0 p = Some (File b))
      \<and> distinct (map (artifact_path E dir fs0) cs)
      \<and> (\<forall>p \<in> set cs. artifact_path E dir fs0 p \<notin> set cs)
      \<and> (\<forall>p \<in> set cs. artifact_path E dir fs0 p \<noteq> path_join dir ''manifest.json'')
      \<and> path_join dir ''manifest.json'' \<notin> set cs)"

text \<open>
  The state of the first build after the candidates \<open>seen\<close>: the manifest has entries
  for candidates already handled only, each of them is settled, the others still hold
  their original bytes, the directories \<open>D\<close> are in place, and the counters count the
  cacheable and the other candidates handled so far.
\<close>

definition first_inv ::
  "env \<Rightarrow> js_object \<Rightarrow> path \<Rightarrow> filesystem \<Rightarrow> path list \<Rightarrow> path set \<Rightarrow> world \<Rightarrow> path list \<Rightarrow> bool" where
  "first_inv E cfg dir fs0 cs D w seen =
     (\<exists>m. cacheManager w = Some m \<and> cacheDir m = dir
        \<and> (\<forall>q. q \<notin> set seen \<longrightarrow> entries (manifest m) q = None)
        \<and> (\<forall>q \<in> set seen. settled E cfg dir fs0 (manifest m) (disk w) q)
        \<and> (\<forall>q \<in> set cs. q \<notin> set seen \<longrightarrow> disk w q = fs0 q)
        \<and> (\<forall>q \<in> D. disk w q = Some Dir)
        \<and> processedFiles w = length (filter (cacheable E cfg fs0) seen)
        \<and> skippedFiles w = length (filter (\<lambda>q. \<not> cacheable E cfg fs0 q) seen)
        \<and> cacheHits w = 0)"

text \<open>
  The state of the second build after the candidates \<open>seen\<close>: the manifest is the one
  the first build saved, the candidates handled hold what the first build left in
  them (\<open>d1\<close>), every other path holds what the second build started with (\<open>fs1\<close>),
  and only hits and skips have been counted.
\<close>

definition second_inv ::
  "env \<Rightarrow> js_object \<Rightarrow> filesystem \<Rightarrow> CompressionCacheManagerImpl \<Rightarrow> filesystem \<Rightarrow> filesystem
     \<Rightarrow> world \<Rightarrow> path list \<Rightarrow> bool" where
  "second_inv E cfg fs0 m d1 fs1 w seen =
     (cacheManager w = Some m
      \<and> (\<forall>q. disk w q = (if q \<in> set seen then d1 q else fs1 q))
      \<and> processedFiles w = 0
      \<and> cacheHits w = length (filter (cacheable E cfg fs0) seen)
      \<and> skippedFiles w = length (filter (\<lambda>q. \<not> cacheable E cfg fs0 q) seen))"

text \<open>
  A fresh build directory with a style sheet and a text file. The style sheet is the
  example of the documentation of csso, \<open>csso.minify('.test { color: #ff0000; }').css\<close>
  being \<open>.test{color:red}\<close>; the stand-in for csso is the table of this example: the
  sheet has the minified sheet as its output, and the minified sheet (as any other
  input) is returned as it is. The stand-in serialiser writes the source hash of the
  style sheet's entry, and the parser knows the two manifests of the example.
  \<open>first_world\<close> is what the first build leaves.
\<close>

definition test_css :: bytes where
  "test_css = ''.test { color: #ff0000; }''"

definition test_min :: bytes where
  "test_min = ''.test{color:red}''"

definition csso_readme :: "jsstring \<Rightarrow> jsstring" where
  "csso_readme s = (if s = js_of_ascii test_css then js_of_ascii test_min else s)"

definition twin_fs :: filesystem where
  "twin_fs =
     [''/r'' \<mapsto> Dir, ''/r/dist'' \<mapsto> Dir, ''/r/dist/a.css'' \<mapsto> File test_css,
      ''/r/dist/notes.txt'' \<mapsto> File ''a  b'']"

definition twin_cs :: "path list" where
  "twin_cs = [''/r/dist/a.css'', ''/r/dist/notes.txt'']"

definition first_entry :: CacheEntry where
  "first_entry =
     \<lparr>sourceHash = ''2e74657374207b20636f6c6f723a20236666303030303b207d'',
      compressedPath = ''/r/cache/2e74657374207b20636f6c6f723a20236666303030303b207d.css'',
      timestamp = 1700000000000, settings = css_settings,
      size_original = 25, size_compressed = 16\<rparr>"

definition first_manifest :: CompressionCache where
  "first_manifest = \<lparr>version = ''1'', entries = [''/r/dist/a.css'' \<mapsto> first_entry]\<rparr>"

definition reload_env :: env where
  "reload_env =
     sample_env
       \<lparr>manifest_stringify :=
          (\<lambda>m. case entries m ''/r/dist/a.css'' of
                 None \<Rightarrow> ''{}''
               | Some e \<Rightarrow> ''{'' @ sourceHash e @ ''}''),
        manifest_parse :=
          (\<lambda>b. if b = ''{}'' then Some empty_manifest
               else if b = ''{2e74657374207b20636f6c6f723a20236666303030303b207d}''
               then Some first_manifest
               else None),
        csso_minify := (\<lambda>s c. Returns (csso_readme s))\<rparr>"

definition first_disk :: filesystem where
  "first_disk =
     [''/r'' \<mapsto> Dir, ''/r/dist'' \<mapsto> Dir, ''/r/dist/a.css'' \<mapsto> File test_min,
      ''/r/dist/notes.txt'' \<mapsto> File ''a  b'', ''/r/cache'' \<mapsto> Dir,
      ''/r/cache/2e74657374207b20636f6c6f723a20236666303030303b207d.css'' \<mapsto> File test_min,
      ''/r/cache/manifest.json'' \<mapsto>
        File ''{2e74657374207b20636f6c6f723a20236666303030303b207d}'']"

definition first_world :: world where
  "first_world =
     \<lparr>disk = first_disk,
      cacheManager = Some \<lparr>cacheDir = ''/r/cache'', manifest = first_manifest\<rparr>,
      originalSizeTotal = 25, newSizeTotal = 16,
      processedFiles = 1, skippedFiles = 1, cacheHits = 0\<rparr>"

section \<open>Basic facts about the file system and the manager\<close>

lemma unlink_removes_file: "unlink fs p p \<noteq> Some (File b)"
  by (simp add: unlink_def split: option.splits node.splits)

lemma unlink_other: "q \<noteq> p \<Longrightarrow> unlink fs p q = fs q"
  by (simp add: unlink_def split: option.splits node.splits)

lemma delete_entry_entries [simp]:
  "entries (manifest (delete_entry m p)) = (entries (manifest m))(p := None)"
  by (simp add: delete_entry_def)

lemma delete_entry_cacheDir [simp]: "cacheDir (delete_entry m p) = cacheDir m"
  by (simp add: delete_entry_def)

lemma invalidateCache_Some:
  "entries (manifest m) p = Some e \<Longrightarrow>
   invalidateCache m fs (Some p) = Inr (delete_entry m p, unlink fs (compressedPath e))"
  by (simp add: invalidateCache_def property_key_def)

section \<open>Lookup in the cache\<close>

text \<open>
  C2, as the code has it. \<open>getCachedFile(path, currentHash, currentSettings)\<close>: without
  a manifest entry for the path it returns absent and changes nothing; when the
  entry's source hash differs from the current hash, or the \<open>JSON.stringify\<close> text of
  the entry's settings differs from the \<open>JSON.stringify\<close> text of the current settings,
  the entry is invalidated (the artifact is unlinked and the entry removed) and absent
  is returned; when hash and serialised settings agree and the artifact does not exist
  on disk, the entry is dropped, no file is deleted, and absent is returned; when hash
  and serialised settings agree and the artifact exists, the entry itself is returned
  and nothing changes.
\<close>

theorem getCachedFile_cases:
  "(entries (manifest m) p = None \<longrightarrow> getCachedFile m fs p h s = (None, m, fs))
   \<and> (\<forall>e. entries (manifest m) p = Some e \<longrightarrow>
        ((sourceHash e \<noteq> h \<or> JSON_stringify (settings e) \<noteq> JSON_stringify s) \<longrightarrow>
            getCachedFile m fs p h s = (None, delete_entry m p, unlink fs (compressedPath e))
            \<and> entries (manifest (delete_entry m p)) p = None
            \<and> (\<forall>b. unlink fs (compressedPath e) (compressedPath e) \<noteq> Some (File b)))
        \<and> (sourceHash e = h \<and> JSON_stringify (settings e) = JSON_stringify s
             \<and> \<not> path_exists fs (compressedPath e) \<longrightarrow>
            getCachedFile m fs p h s = (None, delete_entry m p, fs)
            \<and> entries (manifest (delete_entry m p)) p = None)
        \<and> (sourceHash e = h \<and> JSON_stringify (settings e) = JSON_stringify s
             \<and> path_exists fs (compressedPath e) \<longrightarrow>
            getCachedFile m fs p h s = (Some e, m, fs)))"
  by (auto simp: getCachedFile_def invalidateCache_Some unlink_removes_file)

theorem getCachedFile_cases_witness:
  "getCachedFile sample_manager sample_fs ''/r/dist/b.css'' ''ab12'' css_settings
     = (None, sample_manager, sample_fs)
   \<and> getCachedFile sample_manager sample_fs ''/r/dist/a.css'' ''cd34'' css_settings
     = (None, delete_entry sample_manager ''/r/dist/a.css'', unlink sample_fs ''/r/cache/ab12.css'')
   \<and> getCachedFile sample_manager sample_fs ''/r/dist/a.css'' ''ab12'' JNull
     = (None, delete_entry sample_manager ''/r/dist/a.css'', unlink sample_fs ''/r/cache/ab12.css'')
   \<and> getCachedFile sample_manager (unlink sample_fs ''/r/cache/ab12.css'') ''/r/dist/a.css''
        ''ab12'' css_settings
     = (None, delete_entry sample_manager ''/r/dist/a.css'', unlink sample_fs ''/r/cache/ab12.css'')
   \<and> getCachedFile sample_manager sample_fs ''/r/dist/a.css'' ''ab12'' css_settings
     = (Some sample_entry, sample_manager, sample_fs)"
proof -
  have e: "entries (manifest sample_manager) ''/r/dist/a.css'' = Some sample_entry"
    by (simp add: sample_manager_def)
  have n: "entries (manifest sample_manager) ''/r/dist/b.css'' = None"
    by (simp add: sample_manager_def)
  have cp: "compressedPath sample_entry = ''/r/cache/ab12.css''"
    and sh: "sourceHash sample_entry = ''ab12''"
    and st: "settings sample_entry = css_settings"
    by (simp_all add: sample_entry_def)
  have ex: "path_exists sample_fs ''/r/cache/ab12.css''"
    by (simp add: path_exists_def sample_fs_def)
  have nex: "\<not> path_exists (unlink sample_fs ''/r/cache/ab12.css'') ''/r/cache/ab12.css''"
    by (simp add: path_exists_def unlink_def sample_fs_def)
  have ne: "JSON_stringify css_settings \<noteq> JSON_stringify JNull"
    by (simp add: css_settings_def)
  show ?thesis
    using getCachedFile_cases [of sample_manager "''/r/dist/b.css''" sample_fs "''ab12''" css_settings]
      getCachedFile_cases [of sample_manager "''/r/dist/a.css''" sample_fs "''cd34''" css_settings]
      getCachedFile_cases [of sample_manager "''/r/dist/a.css''" sample_fs "''ab12''" JNull]
      getCachedFile_cases [of sample_manager "''/r/dist/a.css''"
         "unlink sample_fs ''/r/cache/ab12.css''" "''ab12''" css_settings]
      getCachedFile_cases [of sample_manager "''/r/dist/a.css''" sample_fs "''ab12''" css_settings]
      e n cp sh st ex nex ne
    by simp
qed

text \<open>
  The settings of the claim are compared as texts, not as values: the sample entry has
  the current hash and its artifact is on disk, and the current settings are the
  entry's settings with the two keys in the other order, so the two values do not
  differ structurally (\<open>deep_equal\<close>). The entry is not returned: it is invalidated and
  its artifact unlinked.
\<close>

theorem deep_equal_settings_not_returned_counterexample:
  "entries (manifest sample_manager) ''/r/dist/a.css'' = Some sample_entry
   \<and> sourceHash sample_entry = ''ab12''
   \<and> deep_equal (settings sample_entry) css_settings_fc
   \<and> path_exists sample_fs (compressedPath sample_entry)
   \<and> getCachedFile sample_manager sample_fs ''/r/dist/a.css'' ''ab12'' css_settings_fc
       = (None, delete_entry sample_manager ''/r/dist/a.css'', unlink sample_fs ''/r/cache/ab12.css'')
   \<and> fst (getCachedFile sample_manager sample_fs ''/r/dist/a.css'' ''ab12'' css_settings_fc)
       \<noteq> Some sample_entry
   \<and> entries (manifest (delete_entry sample_manager ''/r/dist/a.css'')) ''/r/dist/a.css'' = None
   \<and> unlink sample_fs ''/r/cache/ab12.css'' ''/r/cache/ab12.css'' = None"
proof -
  have de: "deep_equal (settings sample_entry) css_settings_fc"
    by (simp add: sample_entry_def css_settings_def css_settings_fc_def insert_commute)
  have ne: "JSON_stringify css_settings \<noteq> JSON_stringify css_settings_fc"
    by (simp add: css_settings_def css_settings_fc_def json_quote_def json_escape_char_def)
  have e: "entries (manifest sample_manager) ''/r/dist/a.css'' = Some sample_entry"
    by (simp add: sample_manager_def)
  have g: "getCachedFile sample_manager sample_fs ''/r/dist/a.css'' ''ab12'' css_settings_fc
       = (None, delete_entry sample_manager ''/r/dist/a.css'', unlink sample_fs ''/r/cache/ab12.css'')"
    using ne by (simp add: getCachedFile_def invalidateCache_Some e sample_entry_def)
  show ?thesis
    unfolding g using de e by (simp add: sample_entry_def path_exists_def sample_fs_def unlink_def)
qed

section \<open>Invalidation\<close>

text \<open>
  C10. \<open>invalidateCache(path)\<close> needs a manifest entry for the path: with an entry it
  removes the entry and unlinks the artifact (a failure to unlink is only logged); without
  an entry it throws instead of doing nothing. That includes the call without argument
  that the interface allows, which reads the entry named \<open>undefined\<close>.
\<close>

theorem invalidateCache_needs_entry:
  "(\<forall>e. entries (manifest m) (property_key arg) = Some e \<longrightarrow>
        invalidateCache m fs arg
          = Inr (delete_entry m (property_key arg), unlink fs (compressedPath e))
        \<and> entries (manifest (delete_entry m (property_key arg))) (property_key arg) = None
        \<and> (\<forall>b. unlink fs (compressedPath e) (compressedPath e) \<noteq> Some (File b)))
   \<and> (entries (manifest m) (property_key arg) = None \<longrightarrow> invalidateCache m fs arg = Inl TypeError)
   \<and> property_key None = ''undefined''"
  by (simp add: invalidateCache_def unlink_removes_file property_key_def)

theorem invalidateCache_needs_entry_witness:
  "invalidateCache sample_manager sample_fs (Some ''/r/dist/a.css'')
     = Inr (delete_entry sample_manager ''/r/dist/a.css'', unlink sample_fs ''/r/cache/ab12.css'')
   \<and> invalidateCache sample_manager sample_fs (Some ''/r/dist/b.css'') = Inl TypeError
   \<and> invalidateCache sample_manager sample_fs None = Inl TypeError"
proof -
  have e: "entries (manifest sample_manager) ''/r/dist/a.css'' = Some sample_entry"
    by (simp add: sample_manager_def)
  have n: "entries (manifest sample_manager) ''/r/dist/b.css'' = None"
    "entries (manifest sample_manager) ''undefined'' = None"
    by (simp_all add: sample_manager_def)
  have cp: "compressedPath sample_entry = ''/r/cache/ab12.css''"
    by (simp add: sample_entry_def)
  show ?thesis
    using invalidateCache_needs_entry [of sample_manager "Some ''/r/dist/a.css''" sample_fs]
      invalidateCache_needs_entry [of sample_manager "Some ''/r/dist/b.css''" sample_fs]
      invalidateCache_needs_entry [of sample_manager None sample_fs]
      e n cp
    by (simp add: property_key_def)
qed

section \<open>Artifacts shared between paths\<close>

lemma saveToCache_Inr:
  "saveToCache E m fs p h n c s = Inr (m1, fs1) \<Longrightarrow>
     fs1 = fs(cachedFilePath m p h \<mapsto> File c)
     \<and> cacheDir m1 = cacheDir m
     \<and> entries (manifest m1) = (entries (manifest m))(p \<mapsto>
          \<lparr>sourceHash = h, compressedPath = cachedFilePath m p h, timestamp = date_now E,
           settings = s, size_original = n, size_compressed = length c\<rparr>)"
  by (auto simp: saveToCache_def writeFileSync_def Let_def
           split: sum.splits option.splits node.splits if_splits)

text \<open>
  C9. Two calls of \<open>saveToCache\<close> with distinct original paths, the same source hash
  and the same final extension give two manifest entries with the same
  \<open>compressedPath\<close>; invalidating either path then unlinks the one artifact that the
  entry of the other path, still present, refers to.
\<close>

theorem saveToCache_shared_artifact:
  assumes "p1 \<noteq> p2" and "last_segment p1 = last_segment p2"
    and "saveToCache E m fs p1 h n1 c1 s1 = Inr (m1, fs1)"
    and "saveToCache E m1 fs1 p2 h n2 c2 s2 = Inr (m2, fs2)"
  shows "\<exists>e1 e2. entries (manifest m2) p1 = Some e1 \<and> entries (manifest m2) p2 = Some e2
           \<and> compressedPath e1 = compressedPath e2
           \<and> fs2 (compressedPath e2) = Some (File c2)
           \<and> (\<exists>m3 fs3. invalidateCache m2 fs2 (Some p1) = Inr (m3, fs3)
                  \<and> entries (manifest m3) p2 = Some e2 \<and> fs3 (compressedPath e2) = None)
           \<and> (\<exists>m3 fs3. invalidateCache m2 fs2 (Some p2) = Inr (m3, fs3)
                  \<and> entries (manifest m3) p1 = Some e1 \<and> fs3 (compressedPath e1) = None)"
proof -
  note a = saveToCache_Inr [OF assms(3)]
  note b = saveToCache_Inr [OF assms(4)]
  have same: "cachedFilePath m1 p2 h = cachedFilePath m p1 h"
    using a assms(2) by (simp add: cachedFilePath_def)
  show ?thesis
    using a b same assms(1)
    by (simp add: invalidateCache_def property_key_def unlink_def)
qed

theorem saveToCache_shared_artifact_witness:
  "\<exists>m1 fs1 m2 fs2 e1 e2.
      saveToCache sample_env sample_manager sample_fs ''/r/dist/x/b.css'' ''cd34'' 9 ''b{c:d}'' css_settings
         = Inr (m1, fs1)
      \<and> saveToCache sample_env m1 fs1 ''/r/dist/y/c.css'' ''cd34'' 9 ''b{c:d}'' css_settings = Inr (m2, fs2)
      \<and> entries (manifest m2) ''/r/dist/x/b.css'' = Some e1
      \<and> entries (manifest m2) ''/r/dist/y/c.css'' = Some e2
      \<and> compressedPath e1 = compressedPath e2
      \<and> (\<exists>m3 fs3. invalidateCache m2 fs2 (Some ''/r/dist/x/b.css'') = Inr (m3, fs3)
              \<and> entries (manifest m3) ''/r/dist/y/c.css'' = Some e2 \<and> fs3 (compressedPath e2) = None)"
proof -
  obtain m1 fs1 where s1:
    "saveToCache sample_env sample_manager sample_fs ''/r/dist/x/b.css'' ''cd34'' 9 ''b{c:d}'' css_settings
       = Inr (m1, fs1)"
    by (simp add: saveToCache_def writeFileSync_def cachedFilePath_def path_join_def
        last_segment_def sample_manager_def sample_fs_def dirname_def Let_def)
  have cd: "cacheDir m1 = ''/r/cache''" and f1: "fs1 ''/r/cache'' = Some Dir"
    and f2: "fs1 ''/r/cache/cd34.css'' = Some (File ''b{c:d}'')"
    using saveToCache_Inr [OF s1]
    by (simp_all add: sample_manager_def sample_fs_def cachedFilePath_def path_join_def last_segment_def)
  obtain m2 fs2 where s2:
    "saveToCache sample_env m1 fs1 ''/r/dist/y/c.css'' ''cd34'' 9 ''b{c:d}'' css_settings = Inr (m2, fs2)"
    using cd f1 f2
    by (simp add: saveToCache_def writeFileSync_def cachedFilePath_def path_join_def
        last_segment_def dirname_def Let_def)
  have ne: "''/r/dist/x/b.css'' \<noteq> ''/r/dist/y/c.css''" by simp
  have ls: "last_segment ''/r/dist/x/b.css'' = last_segment ''/r/dist/y/c.css''"
    by (simp add: last_segment_def)
  show ?thesis
    using saveToCache_shared_artifact [OF ne ls s1 s2] s1 s2 by blast
qed


section \<open>The comparison of settings\<close>

lemma getCachedFile_hash_ok:
  assumes "entries (manifest m) p = Some e" and "sourceHash e = h"
    and "fs (compressedPath e) = Some (File b)"
  shows "getCachedFile m fs p h s =
           (if JSON_stringify (settings e) = JSON_stringify s then (Some e, m, fs)
            else (None, delete_entry m p, unlink fs (compressedPath e)))"
  using assms by (simp add: getCachedFile_def invalidateCache_Some path_exists_def)

text \<open>
  C3, as the code has it. For an entry whose source hash matches and whose artifact is
  on disk, \<open>getCachedFile\<close> compares the JSON serialisations of the stored and the
  current settings: the entry is returned when they are equal (in particular when the
  two values are identical, key order included) and invalidated when they differ.
\<close>

theorem settings_comparison_is_serialised:
  assumes "entries (manifest m) p = Some e" and "sourceHash e = h"
    and "fs (compressedPath e) = Some (File b)"
  shows "(JSON_stringify (settings e) = JSON_stringify s \<longrightarrow>
            getCachedFile m fs p h s = (Some e, m, fs))
       \<and> (JSON_stringify (settings e) \<noteq> JSON_stringify s \<longrightarrow>
            getCachedFile m fs p h s = (None, delete_entry m p, unlink fs (compressedPath e))
            \<and> entries (manifest (delete_entry m p)) p = None
            \<and> unlink fs (compressedPath e) (compressedPath e) = None)
       \<and> (settings e = s \<longrightarrow> getCachedFile m fs p h s = (Some e, m, fs))"
  using assms by (auto simp: getCachedFile_hash_ok unlink_def)

theorem settings_comparison_is_serialised_witness:
  "getCachedFile sample_manager_rc sample_fs ''/r/dist/a.css'' ''ab12'' css_settings_rc
     = (Some (sample_entry\<lparr>settings := css_settings_rc\<rparr>), sample_manager_rc, sample_fs)
   \<and> getCachedFile sample_manager_rc sample_fs ''/r/dist/a.css'' ''ab12'' css_settings
     = (None, delete_entry sample_manager_rc ''/r/dist/a.css'', unlink sample_fs ''/r/cache/ab12.css'')"
proof -
  have e: "entries (manifest sample_manager_rc) ''/r/dist/a.css''
             = Some (sample_entry\<lparr>settings := css_settings_rc\<rparr>)"
    by (simp add: sample_manager_rc_def)
  have h: "sourceHash (sample_entry\<lparr>settings := css_settings_rc\<rparr>) = ''ab12''"
    by (simp add: sample_entry_def)
  have f: "sample_fs (compressedPath (sample_entry\<lparr>settings := css_settings_rc\<rparr>)) = Some (File ''a{b:c}'')"
    by (simp add: sample_entry_def sample_fs_def)
  have ne: "JSON_stringify css_settings_rc \<noteq> JSON_stringify css_settings"
    by (simp add: css_settings_rc_def css_settings_def)
  have cp: "compressedPath (sample_entry\<lparr>settings := css_settings_rc\<rparr>) = ''/r/cache/ab12.css''"
    by (simp add: sample_entry_def)
  show ?thesis
    using settings_comparison_is_serialised [of sample_manager_rc "''/r/dist/a.css''"
        "sample_entry\<lparr>settings := css_settings_rc\<rparr>" "''ab12''" sample_fs "''a{b:c}''" css_settings_rc]
      settings_comparison_is_serialised [of sample_manager_rc "''/r/dist/a.css''"
        "sample_entry\<lparr>settings := css_settings_rc\<rparr>" "''ab12''" sample_fs "''a{b:c}''" css_settings]
      e h f ne cp
    by simp
qed

text \<open>
  The serialisation keeps the order of the keys, so the comparison is not the deep
  equality of the specification: two settings values that are \<open>deep_equal\<close> and differ
  only in the order of the keys of \<open>config\<close> invalidate the entry.
\<close>

theorem key_order_invalidates_counterexample:
  "deep_equal css_settings_rc css_settings_cr
   \<and> entries (manifest sample_manager_rc) ''/r/dist/a.css''
       = Some (sample_entry\<lparr>settings := css_settings_rc\<rparr>)
   \<and> sourceHash (sample_entry\<lparr>settings := css_settings_rc\<rparr>) = ''ab12''
   \<and> path_exists sample_fs ''/r/cache/ab12.css''
   \<and> getCachedFile sample_manager_rc sample_fs ''/r/dist/a.css'' ''ab12'' css_settings_cr
       = (None, delete_entry sample_manager_rc ''/r/dist/a.css'', unlink sample_fs ''/r/cache/ab12.css'')
   \<and> entries (manifest (delete_entry sample_manager_rc ''/r/dist/a.css'')) ''/r/dist/a.css'' = None
   \<and> unlink sample_fs ''/r/cache/ab12.css'' ''/r/cache/ab12.css'' = None"
proof -
  have de: "deep_equal css_settings_rc css_settings_cr"
    by (simp add: css_settings_rc_def css_settings_cr_def insert_commute)
  have ne: "JSON_stringify css_settings_rc \<noteq> JSON_stringify css_settings_cr"
    by (simp add: css_settings_rc_def css_settings_cr_def json_quote_def json_escape_char_def)
  have e: "entries (manifest sample_manager_rc) ''/r/dist/a.css''
             = Some (sample_entry\<lparr>settings := css_settings_rc\<rparr>)"
    by (simp add: sample_manager_rc_def)
  have g: "getCachedFile sample_manager_rc sample_fs ''/r/dist/a.css'' ''ab12'' css_settings_cr
       = (None, delete_entry sample_manager_rc ''/r/dist/a.css'', unlink sample_fs ''/r/cache/ab12.css'')"
    using ne by (simp add: getCachedFile_def invalidateCache_Some e sample_entry_def)
  show ?thesis
    using de e g by (simp add: sample_entry_def path_exists_def sample_fs_def unlink_def)
qed


section \<open>Initialising the cache\<close>

lemma prefixes_from_length:
  "q \<in> set (prefixes_from acc p) \<Longrightarrow> length q \<le> length acc + length p"
  by (induction acc p rule: prefixes_from.induct) (auto split: if_splits)

lemma prefixes_from_last: "acc @ p \<in> set (prefixes_from acc p)"
  by (induction acc p rule: prefixes_from.induct) auto

lemma manifestPath_not_prefix: "manifestPath m \<notin> set (prefixes_from [] (cacheDir m))"
proof
  assume "manifestPath m \<in> set (prefixes_from [] (cacheDir m))"
  from prefixes_from_length [OF this] show False
    by (simp add: manifestPath_def path_join_def)
qed

lemma dirname_path_join:
  "d \<noteq> [] \<Longrightarrow> CHR ''/'' \<notin> set n \<Longrightarrow> dirname (path_join d n) = d"
proof -
  assume d: "d \<noteq> []" and n: "CHR ''/'' \<notin> set n"
  have "dropWhile (\<lambda>c. c \<noteq> CHR ''/'') (rev n @ CHR ''/'' # rev d) = CHR ''/'' # rev d"
    using n by (subst dropWhile_append2) auto
  then show ?thesis using d by (simp add: dirname_def path_join_def)
qed

lemma dirname_manifestPath: "cacheDir m \<noteq> [] \<Longrightarrow> dirname (manifestPath m) = cacheDir m"
  unfolding manifestPath_def by (rule dirname_path_join) simp_all

lemma mkdirSync_ok:
  assumes "\<forall>q \<in> set (prefixes_from [] p). \<forall>b. fs q \<noteq> Some (File b)"
  shows "mkdirSync fs p = Inr (\<lambda>q. if q \<in> set (prefixes_from [] p) then Some Dir else fs q)"
  using assms by (auto simp: mkdirSync_def Let_def)

text \<open>
  C7, as the code has it. When no regular file is in the way of the cache directory and
  the manifest path is not a directory, \<open>initialize\<close> returns without error and the
  cache directory exists afterwards. A manifest that loads replaces the one in memory.
  When the load fails (the file is missing, or its content does not parse), the error
  is swallowed, the manager keeps the manifest it holds (the empty one for a manager
  fresh from its constructor) and that manifest is written to disk at once.
\<close>

theorem initialize_when_directory_creatable:
  assumes "\<forall>q \<in> set (prefixes_from [] (cacheDir m)). \<forall>b. fs q \<noteq> Some (File b)"
    and "fs (manifestPath m) \<noteq> Some Dir" and "cacheDir m \<noteq> []"
  shows "\<exists>m1 fs1. initialize E m fs = (m1, fs1, None)
           \<and> fs1 (cacheDir m) = Some Dir
           \<and> (\<forall>b parsed. fs (manifestPath m) = Some (File b) \<and> manifest_parse E b = Some parsed
                 \<longrightarrow> m1 = m\<lparr>manifest := parsed\<rparr> \<and> fs1 (manifestPath m) = Some (File b))
           \<and> (fs (manifestPath m) = None
               \<or> (\<exists>b. fs (manifestPath m) = Some (File b) \<and> manifest_parse E b = None)
                 \<longrightarrow> m1 = m
                     \<and> fs1 (manifestPath m) = Some (File (manifest_stringify E (manifest m))))
           \<and> manifest (new_manager (cacheDir m)) = empty_manifest"
proof -
  define fs1 where "fs1 = (\<lambda>q. if q \<in> set (prefixes_from [] (cacheDir m)) then Some Dir else fs q)"
  have mk: "mkdirSync fs (cacheDir m) = Inr fs1"
    unfolding fs1_def by (rule mkdirSync_ok) (rule assms(1))
  have same: "fs1 (manifestPath m) = fs (manifestPath m)"
    using manifestPath_not_prefix [of m] by (simp add: fs1_def)
  have mem: "cacheDir m \<in> set (prefixes_from [] (cacheDir m))"
    using prefixes_from_last [of "[]" "cacheDir m"] by simp
  have dir: "fs1 (cacheDir m) = Some Dir"
    using mem by (simp add: fs1_def)
  have parent: "fs1 (dirname (manifestPath m)) = Some Dir"
    using dir assms(3) dirname_manifestPath [of m] by simp
  have ne: "cacheDir m \<noteq> manifestPath m"
    by (simp add: manifestPath_def path_join_def)
  have fresh: "manifest (new_manager (cacheDir m)) = empty_manifest"
    by (simp add: new_manager_def)
  show ?thesis
  proof (cases "fs (manifestPath m)")
    case None
    then have "initialize E m fs
                 = (m, fs1(manifestPath m \<mapsto> File (manifest_stringify E (manifest m))), None)"
      using mk same parent
      by (simp add: initialize_def loadManifest_def readFileSync_def saveManifest_def
          writeFileSync_def)
    then show ?thesis using None dir ne fresh by simp
  next
    case (Some nd)
    then obtain b where b: "fs (manifestPath m) = Some (File b)"
      using assms(2) by (cases nd) auto
    show ?thesis
    proof (cases "manifest_parse E b")
      case None
      then have "initialize E m fs
                 = (m, fs1(manifestPath m \<mapsto> File (manifest_stringify E (manifest m))), None)"
        using mk same b
        by (simp add: initialize_def loadManifest_def readFileSync_def saveManifest_def
            writeFileSync_def)
      then show ?thesis using None b dir ne fresh by simp
    next
      case (Some parsed)
      then have "initialize E m fs = (m\<lparr>manifest := parsed\<rparr>, fs1, None)"
        using mk same b
        by (simp add: initialize_def loadManifest_def readFileSync_def)
      then show ?thesis using Some b dir same fresh by simp
    qed
  qed
qed

theorem initialize_when_directory_creatable_witness:
  "\<exists>fs1. initialize sample_env (new_manager ''/r/cache'') fresh_fs
            = (new_manager ''/r/cache'', fs1, None)
         \<and> fs1 ''/r/cache'' = Some Dir
         \<and> fs1 ''/r/cache/manifest.json''
             = Some (File (manifest_stringify sample_env empty_manifest))"
proof -
  have a: "\<forall>q \<in> set (prefixes_from [] (cacheDir (new_manager ''/r/cache''))). \<forall>b. fresh_fs q \<noteq> Some (File b)"
    by (simp add: new_manager_def fresh_fs_def)
  have b: "fresh_fs (manifestPath (new_manager ''/r/cache'')) \<noteq> Some Dir"
    by (simp add: new_manager_def manifestPath_def path_join_def fresh_fs_def)
  have c: "cacheDir (new_manager ''/r/cache'') \<noteq> []"
    by (simp add: new_manager_def)
  have n: "fresh_fs (manifestPath (new_manager ''/r/cache'')) = None"
    by (simp add: new_manager_def manifestPath_def path_join_def fresh_fs_def)
  have mp: "manifestPath (new_manager ''/r/cache'') = ''/r/cache/manifest.json''"
    by (simp add: new_manager_def manifestPath_def path_join_def)
  have cd: "cacheDir (new_manager ''/r/cache'') = ''/r/cache''"
    and mf: "manifest (new_manager ''/r/cache'') = empty_manifest"
    by (simp_all add: new_manager_def)
  show ?thesis
    using initialize_when_directory_creatable [OF a b c, of sample_env] n
    unfolding mp cd mf by auto
qed

text \<open>
  \<open>mkdirSync\<close> is called outside the \<open>try\<close>: with a regular file at the path of the
  cache directory \<open>initialize\<close> throws, and so does the hook that awaits it.
\<close>

theorem initialize_fails_counterexample:
  "initialize sample_env (new_manager ''/r/cache'') blocked_fs
     = (new_manager ''/r/cache'', blocked_fs, Some (EEXIST ''/r/cache''))
   \<and> cache_enabled (compressionConfig cache_in_r)
   \<and> path_join ''/r'' (cache_dir_setting (compressionConfig cache_in_r)) = ''/r/cache''
   \<and> snd (run_build sample_env cache_in_r ''/r'' [] blocked_fs) = Some (EEXIST ''/r/cache'')"
proof -
  have i: "initialize sample_env (new_manager ''/r/cache'') blocked_fs
     = (new_manager ''/r/cache'', blocked_fs, Some (EEXIST ''/r/cache''))"
    by (simp add: initialize_def mkdirSync_def new_manager_def blocked_fs_def)
  have en: "cache_enabled (compressionConfig cache_in_r)"
    by code_simp
  have cd: "path_join ''/r'' (cache_dir_setting (compressionConfig cache_in_r)) = ''/r/cache''"
    by code_simp
  show ?thesis
    using i en cd by (simp add: run_build_def config_done_def new_integration_def)
qed


section \<open>What \<open>processFile\<close> does to an existing file\<close>

lemma handleCompressedResult_file:
  assumes "disk w p = Some (File b)"
  shows "handleCompressedResult w p n c =
     (if content_length c < n
      then Inr ((True, [], length (content_bytes c)),
                w\<lparr>disk := (disk w)(p \<mapsto> File (content_bytes c)),
                  originalSizeTotal := originalSizeTotal w + n,
                  newSizeTotal := newSizeTotal w + length (content_bytes c)\<rparr>)
      else Inr ((False, BiggerSize, 0), w))"
  using assms by (simp add: handleCompressedResult_def writeFileSync_def statSync_size_def)

lemma process_css_ok:
  assumes "disk w p = Some (File b)"
  shows "outcome_ok w p n u (process_css E cfg w p n u)"
  by (auto simp: process_css_def readFileSync_def assms handleCompressedResult_file [OF assms]
      caught_def finish_def outcome_ok_def
      split: outcome.splits option.splits)

lemma process_svg_ok:
  assumes "disk w p = Some (File b)"
  shows "outcome_ok w p n u (process_svg E cfg w p n u)"
  by (auto simp: process_svg_def readFileSync_def assms handleCompressedResult_file [OF assms]
      caught_def finish_def outcome_ok_def handleError_def
      split: outcome.splits option.splits)

lemma process_js_ok:
  assumes "disk w p = Some (File b)"
  shows "outcome_ok w p n u (process_js E cfg w p n u)"
  by (auto simp: process_js_def readFileSync_def assms handleCompressedResult_file [OF assms]
      caught_def finish_def outcome_ok_def handleError_def
      split: outcome.splits option.splits)

lemma process_html_ok:
  assumes "disk w p = Some (File b)"
  shows "outcome_ok w p n u (process_html E cfg w p n u)"
  by (auto simp: process_html_def readFileSync_def assms handleCompressedResult_file [OF assms]
      caught_def finish_def outcome_ok_def
      split: outcome.splits option.splits)

lemma process_image_ok:
  assumes "disk w p = Some (File b)"
  shows "outcome_ok w p n u (process_image E cfg w p n u)"
  by (auto simp: process_image_def readFileSync_def assms handleCompressedResult_file [OF assms]
      caught_def finish_def outcome_ok_def
      split: outcome.splits option.splits)

lemma skipped_ok: "outcome_ok w p n u (finish n u ((False, why, 0), w))"
  by (simp add: outcome_ok_def finish_def)

lemma skipped_not_processed: "\<not> processed (fst (finish n u ((False, why, k), w)))"
  by (simp add: finish_def)

lemma processFile_ok:
  assumes "disk w p = Some (File b)"
  shows "\<exists>r. processFile E cfg w p = Inr r
             \<and> outcome_ok w p (length b) (used_json (getUsedConfig cfg p)) r
             \<and> (processed (fst r) \<longrightarrow> matches_a_pattern p)"
  using process_image_ok [OF assms] process_html_ok [OF assms] process_js_ok [OF assms]
    process_svg_ok [OF assms] process_css_ok [OF assms]
  by (auto simp: processFile_def statSync_size_def assms matches_a_pattern_def skipped_ok
      skipped_not_processed Let_def)


section \<open>The size comparison of \<open>handleCompressedResult\<close>\<close>

lemma cfg_off_css: "obj_get (compressionConfig cache_off) ''css'' = JObj []"
  by code_simp

lemma used_off_css: "getUsedConfig (compressionConfig cache_off) ''/r/dist/a.css'' = Some (JObj [], ''css'')"
  by code_simp

lemma rx: "regex_ext_test css_exts ''/r/dist/a.css''" "\<not> regex_ext_test image_exts ''/r/dist/a.css''"
  "\<not> regex_ext_test html_exts ''/r/dist/a.css''" "\<not> regex_ext_test js_exts ''/r/dist/a.css''"
  "\<not> regex_ext_test svg_exts ''/r/dist/a.css''"
  by code_simp+

text \<open>
  C4 asks that a result is accepted exactly when its byte length is below that of the
  original. \<open>handleCompressedResult\<close> takes \<open>length\<close> of the result in both branches of
  its conditional; for a string that is the number of UTF-16 code units. The style sheet
  \<open>accented_css\<close> has nine bytes and eight code units, and the minifier returns its text
  unchanged: the result has nine bytes again, yet it is accepted, written over the file
  and counted in the totals.
\<close>

theorem equal_size_result_is_accepted:
  "utf8_decode sample_env accented_css = js_of_ascii ''a{b:'' @ [0x22, 0xE9, 0x22] @ js_of_ascii ''}''
   \<and> csso_minify sample_env (utf8_decode sample_env accented_css) (JObj [])
       = Returns (utf8_decode sample_env accented_css)
   \<and> length accented_css = 9
   \<and> length (utf8_decode sample_env accented_css) = 8
   \<and> utf8_encode (utf8_decode sample_env accented_css) = accented_css
   \<and> (case processFile sample_env (compressionConfig cache_off) (new_integration accented_fs)
            ''/r/dist/a.css'' of
         Inl e \<Rightarrow> False
       | Inr (result, w) \<Rightarrow>
           processed result \<and> originalSize result = 9 \<and> newSize result = 9
           \<and> disk w ''/r/dist/a.css'' = Some (File accented_css)
           \<and> originalSizeTotal w = 9 \<and> newSizeTotal w = 9)"
proof -
  have d: "utf8_decode sample_env accented_css
             = js_of_ascii ''a{b:'' @ [0x22, 0xE9, 0x22] @ js_of_ascii ''}''"
    by (simp add: sample_env_def accented_css_def js_of_ascii_def)
  have m: "csso_minify sample_env (utf8_decode sample_env accented_css) (JObj [])
             = Returns (utf8_decode sample_env accented_css)"
    by (simp add: sample_env_def accented_css_def drop_spaces_def)
  have l: "length accented_css = 9" by (simp add: accented_css_def)
  have k: "length (utf8_decode sample_env accented_css) = 8"
    by (simp add: sample_env_def accented_css_def)
  have n: "utf8_decode sample_env accented_css \<noteq> []"
    using k by auto
  have e: "utf8_encode (utf8_decode sample_env accented_css) = accented_css"
    by (simp add: sample_env_def accented_css_def char_of_eq_iff)
  have f: "disk (new_integration accented_fs) ''/r/dist/a.css'' = Some (File accented_css)"
    by (simp add: new_integration_def accented_fs_def)
  have z: "originalSizeTotal (new_integration accented_fs) = 0"
    "newSizeTotal (new_integration accented_fs) = 0"
    by (simp_all add: new_integration_def)
  have p: "processFile sample_env (compressionConfig cache_off) (new_integration accented_fs)
            ''/r/dist/a.css''
      = Inr (\<lparr>processed = True, reason = [], originalSize = 9, newSize = 9,
               usedConfig = JObj [(''config'', JObj []), (''format'', JStr ''css'')]\<rparr>,
             (new_integration accented_fs)
               \<lparr>disk := (disk (new_integration accented_fs))(''/r/dist/a.css'' \<mapsto> File accented_css),
                 originalSizeTotal := 9, newSizeTotal := 9\<rparr>)"
    using m l k n e z
    by (simp add: processFile_def statSync_size_def f rx used_off_css cfg_off_css process_css_def
        readFileSync_def nonempty_text_def handleCompressedResult_file [OF f] content_length_def
        content_bytes_def finish_def used_json_def)
  show ?thesis
    using d m l k e p by simp
qed


section \<open>Files whose format resolves to none\<close>












lemma same_manager: "cacheManager w = Some m \<Longrightarrow> w\<lparr>cacheManager := Some m\<rparr> = w"
  by (cases w) simp






section \<open>A build with caching disabled\<close>

lemma only_rewrites_refl: "only_rewrites fs fs"
  by (simp add: only_rewrites_def)

lemma only_rewrites_trans:
  assumes "only_rewrites a b" and "only_rewrites b c"
  shows "only_rewrites a c"
  unfolding only_rewrites_def
proof
  fix q
  from assms have "b q = a q \<or> (matches_a_pattern q \<and> (\<exists>x y. a q = Some (File x) \<and> b q = Some (File y)))"
    and "c q = b q \<or> (matches_a_pattern q \<and> (\<exists>x y. b q = Some (File x) \<and> c q = Some (File y)))"
    unfolding only_rewrites_def by blast+
  then show "c q = a q \<or> (matches_a_pattern q \<and> (\<exists>x y. a q = Some (File x) \<and> c q = Some (File y)))"
    by metis
qed

lemma processFile_Inr_file:
  "processFile E cfg w p = Inr r \<Longrightarrow> \<exists>b. disk w p = Some (File b)"
  by (auto simp: processFile_def statSync_size_def split: option.splits node.splits)

lemma processFile_frame:
  assumes "processFile E cfg w p = Inr (res, w2)"
  shows "only_rewrites (disk w) (disk w2) \<and> cacheManager w2 = cacheManager w
         \<and> processedFiles w2 = processedFiles w \<and> skippedFiles w2 = skippedFiles w
         \<and> cacheHits w2 = cacheHits w"
proof -
  from processFile_Inr_file [OF assms] obtain b where b: "disk w p = Some (File b)" ..
  from processFile_ok [OF b, of E cfg] assms
  have ok: "outcome_ok w p (length b) (used_json (getUsedConfig cfg p)) (res, w2)"
    and pat: "processed res \<longrightarrow> matches_a_pattern p"
    by auto
  show ?thesis
  proof (cases "processed res")
    case False
    with ok show ?thesis by (simp add: outcome_ok_def only_rewrites_refl)
  next
    case True
    with ok obtain c where "w2 = w\<lparr>disk := (disk w)(p \<mapsto> File (content_bytes c)),
                          originalSizeTotal := originalSizeTotal w + length b,
                          newSizeTotal := newSizeTotal w + length (content_bytes c)\<rparr>"
      by (auto simp: outcome_ok_def)
    with True pat b show ?thesis by (simp add: only_rewrites_def)
  qed
qed

lemma process_candidate_uncached_frame:
  "only_rewrites (disk w) (disk (fst (process_candidate_uncached E cfg w p)))
   \<and> cacheManager (fst (process_candidate_uncached E cfg w p)) = cacheManager w"
proof (cases "processFile E cfg w p")
  case (Inl e)
  then show ?thesis by (simp add: process_candidate_uncached_def only_rewrites_refl)
next
  case (Inr r)
  obtain res w2 where r: "r = (res, w2)" by (cases r)
  from processFile_frame [OF Inr [unfolded r]] show ?thesis
    by (simp add: process_candidate_uncached_def Inr r)
qed

lemma process_candidates_uncached_frame:
  assumes "\<not> cache_enabled cfg"
  shows "only_rewrites (disk w) (disk (fst (process_candidates E cfg w cs)))
         \<and> cacheManager (fst (process_candidates E cfg w cs)) = cacheManager w"
proof (induction cs arbitrary: w)
  case Nil
  show ?case by (simp add: only_rewrites_refl)
next
  case (Cons c cs)
  obtain w1 err where s: "process_candidate E cfg w c = (w1, err)"
    by (cases "process_candidate E cfg w c")
  have f: "only_rewrites (disk w) (disk w1)" "cacheManager w1 = cacheManager w"
    using process_candidate_uncached_frame [of w E cfg c] s assms
    by (simp_all add: process_candidate_def)
  show ?case
  proof (cases err)
    case None
    with s f Cons.IH [of w1] show ?thesis
      by (auto intro: only_rewrites_trans)
  next
    case (Some e)
    with s f show ?thesis by simp
  qed
qed

lemma ends_with_append:
  "length s \<le> length t \<Longrightarrow> ends_with s (xs @ t) = ends_with s t"
  by (simp add: ends_with_def)

lemma manifest_matches_no_pattern: "\<not> matches_a_pattern (path_join d ''manifest.json'')"
proof -
  have "toLowerCase (path_join d ''manifest.json'') = toLowerCase d @ ''/manifest.json''"
    by (simp add: toLowerCase_def path_join_def ascii_lower_def)
  then show ?thesis
    by (simp add: matches_a_pattern_def regex_ext_test_def ends_with_append image_exts_def
        html_exts_def js_exts_def svg_exts_def css_exts_def)
     (simp add: ends_with_def)
qed

text \<open>
  C8. A build with caching disabled, whether it ends normally or with an error, creates
  no path that did not exist before (so the cache directory is not created), creates no
  directory, leaves every file named \<open>manifest.json\<close> as it was (no manifest is
  written) and never constructs a cache manager.
\<close>

theorem cache_disabled_touches_no_cache:
  assumes "\<not> cache_enabled (compressionConfig options)"
  shows "(\<forall>q. fs q = None \<longrightarrow> disk (fst (run_build E options root cs fs)) q = None)
       \<and> (\<forall>q. disk (fst (run_build E options root cs fs)) q = Some Dir \<longleftrightarrow> fs q = Some Dir)
       \<and> (\<forall>d. disk (fst (run_build E options root cs fs)) (path_join d ''manifest.json'')
                = fs (path_join d ''manifest.json''))
       \<and> cacheManager (fst (run_build E options root cs fs)) = None"
proof -
  let ?cfg = "compressionConfig options"
  have rb: "fst (run_build E options root cs fs)
              = fst (process_candidates E ?cfg (new_integration fs) cs)"
    using assms
    by (simp add: run_build_def config_done_def build_done_def split: prod.splits option.splits)
  from process_candidates_uncached_frame [OF assms, of "new_integration fs" E cs]
  have ow: "only_rewrites fs (disk (fst (run_build E options root cs fs)))"
    and cm: "cacheManager (fst (run_build E options root cs fs)) = None"
    unfolding rb by (simp_all add: new_integration_def)
  show ?thesis
    using ow cm manifest_matches_no_pattern
    unfolding only_rewrites_def by (metis node.distinct(1) option.distinct(1) option.inject)
qed


theorem cache_disabled_touches_no_cache_witness:
  "disk (fst (run_build sample_env cache_off ''/r'' [''/r/dist/p.htm'', ''/r/dist/notes.txt''] two_pages_fs))
      (path_join ''/r'' defaultCacheDir) = None
   \<and> disk (fst (run_build sample_env cache_off ''/r'' [''/r/dist/p.htm'', ''/r/dist/notes.txt''] two_pages_fs))
      (path_join (path_join ''/r'' defaultCacheDir) ''manifest.json'') = None
   \<and> cacheManager (fst (run_build sample_env cache_off ''/r'' [''/r/dist/p.htm'', ''/r/dist/notes.txt'']
        two_pages_fs)) = None"
proof -
  have off: "\<not> cache_enabled (compressionConfig cache_off)" by code_simp
  have a: "two_pages_fs (path_join ''/r'' defaultCacheDir) = None"
    "two_pages_fs (path_join (path_join ''/r'' defaultCacheDir) ''manifest.json'') = None"
    by (simp_all add: two_pages_fs_def path_join_def defaultCacheDir_def)
  show ?thesis
    using cache_disabled_touches_no_cache [OF off, of two_pages_fs sample_env "''/r''"
        "[''/r/dist/p.htm'', ''/r/dist/notes.txt'']"] a
    by simp
qed


section \<open>Rejected compression attempts\<close>

lemma unlink_Some: "unlink fs cp q = Some x \<Longrightarrow> fs q = Some x"
  by (auto simp: unlink_def split: option.splits node.splits if_splits)

lemma getCachedFile_frame:
  assumes "getCachedFile m fs p h s = (r, m1, d1)"
  shows "(\<forall>q x. d1 q = Some x \<longrightarrow> fs q = Some x) \<and> cacheDir m1 = cacheDir m
         \<and> (r = None \<longrightarrow> entries (manifest m1) p = None)"
  using assms
  by (auto simp: getCachedFile_def invalidateCache_def property_key_def
      split: option.splits if_splits dest: unlink_Some)

text \<open>
  C5, as the code has it. Let \<open>processFile\<close> reject a file. With caching disabled the
  file is counted as skipped and the world is otherwise unchanged. With caching enabled
  and a lookup that misses: for every reason other than \<open>BiggerSize\<close> the file is
  counted as skipped and nothing is stored for it; for the reason \<open>BiggerSize\<close>, when
  the artifact can be written, the original bytes become the artifact and the manifest
  entry of the path, and the file itself keeps its bytes.
\<close>

theorem rejected_attempt_outcome:
  "(\<not> cache_enabled cfg \<and> processFile E cfg w p = Inr (res, wb) \<and> \<not> processed res \<longrightarrow>
      process_candidate E cfg w p = (w\<lparr>skippedFiles := skippedFiles w + 1\<rparr>, None))
   \<and> (cache_enabled cfg \<and> readFileSync (disk w) p = Inr b \<and> cacheManager w = Some m
        \<and> getCachedFile m (disk w) p (sha256_hex E b) (used_json (getUsedConfig cfg p)) = (None, ma, da)
        \<and> processFile E cfg (w\<lparr>disk := da, cacheManager := Some ma\<rparr>) p = Inr (res, wb)
        \<and> \<not> processed res \<longrightarrow>
        (reason res \<noteq> BiggerSize \<longrightarrow>
           process_candidate E cfg w p
             = (w\<lparr>disk := da, cacheManager := Some ma, skippedFiles := skippedFiles w + 1\<rparr>, None)
           \<and> entries (manifest ma) p = None)
        \<and> (reason res = BiggerSize
             \<and> writeFileSync da (cachedFilePath ma p (sha256_hex E b)) b = Inr db \<longrightarrow>
           (\<exists>wc mb. process_candidate E cfg w p = (wc, None)
               \<and> disk wc = da(cachedFilePath ma p (sha256_hex E b) \<mapsto> File b)
               \<and> disk wc p = Some (File b)
               \<and> cacheManager wc = Some mb
               \<and> entries (manifest mb) p
                    = Some \<lparr>sourceHash = sha256_hex E b,
                            compressedPath = cachedFilePath ma p (sha256_hex E b),
                            timestamp = date_now E,
                            settings = used_json (getUsedConfig cfg p),
                            size_original = length b, size_compressed = length b\<rparr>)))"
proof (intro conjI impI; (elim conjE)?)
  assume "\<not> cache_enabled cfg" "processFile E cfg w p = Inr (res, wb)" "\<not> processed res"
  moreover from this obtain b0 where "disk w p = Some (File b0)"
    using processFile_Inr_file by blast
  ultimately show "process_candidate E cfg w p = (w\<lparr>skippedFiles := skippedFiles w + 1\<rparr>, None)"
    using processFile_ok [of w p b0 E cfg]
    by (auto simp: process_candidate_def process_candidate_uncached_def outcome_ok_def)
next
  let ?wa = "w\<lparr>disk := da, cacheManager := Some ma\<rparr>"
  assume en: "cache_enabled cfg" and rd: "readFileSync (disk w) p = Inr b"
    and cm: "cacheManager w = Some m"
    and gc: "getCachedFile m (disk w) p (sha256_hex E b) (used_json (getUsedConfig cfg p)) = (None, ma, da)"
    and pf: "processFile E cfg ?wa p = Inr (res, wb)" and np: "\<not> processed res"
    and why: "reason res \<noteq> BiggerSize"
  from processFile_Inr_file [OF pf] obtain b0 where b0: "disk ?wa p = Some (File b0)" ..
  from processFile_ok [OF b0, of E cfg] pf np have wb: "wb = ?wa"
    by (auto simp: outcome_ok_def)
  show "process_candidate E cfg w p
          = (w\<lparr>disk := da, cacheManager := Some ma, skippedFiles := skippedFiles w + 1\<rparr>, None)"
    using en rd cm gc pf np why wb
    by (simp add: process_candidate_def process_candidate_cached_def)
next
  assume gc: "getCachedFile m (disk w) p (sha256_hex E b) (used_json (getUsedConfig cfg p)) = (None, ma, da)"
  from getCachedFile_frame [OF gc] show "entries (manifest ma) p = None" by simp
next
  let ?wa = "w\<lparr>disk := da, cacheManager := Some ma\<rparr>"
  let ?art = "cachedFilePath ma p (sha256_hex E b)"
  assume en: "cache_enabled cfg" and rd: "readFileSync (disk w) p = Inr b"
    and cm: "cacheManager w = Some m"
    and gc: "getCachedFile m (disk w) p (sha256_hex E b) (used_json (getUsedConfig cfg p)) = (None, ma, da)"
    and pf: "processFile E cfg ?wa p = Inr (res, wb)" and np: "\<not> processed res"
    and why: "reason res = BiggerSize"
    and wr: "writeFileSync da ?art b = Inr db"
  from processFile_Inr_file [OF pf] obtain b0 where b0: "disk ?wa p = Some (File b0)" ..
  from processFile_ok [OF b0, of E cfg] pf np have wb: "wb = ?wa"
    and uc: "usedConfig res = used_json (getUsedConfig cfg p)"
    by (auto simp: outcome_ok_def)
  from b0 have "da p = Some (File b0)" by simp
  with getCachedFile_frame [OF gc] have "disk w p = Some (File b0)" by blast
  with rd have bb: "b0 = b" by (simp add: readFileSync_def)
  have dap: "da p = Some (File b)" using b0 bb by simp
  have db: "db = da(?art \<mapsto> File b)"
    using wr by (auto simp: writeFileSync_def split: option.splits node.splits if_splits)
  have "process_candidate E cfg w p
      = (?wa\<lparr>disk := db,
              cacheManager := Some (ma\<lparr>manifest := (manifest ma)\<lparr>entries := (entries (manifest ma))(p \<mapsto>
                  \<lparr>sourceHash = sha256_hex E b, compressedPath = ?art, timestamp = date_now E,
                   settings = used_json (getUsedConfig cfg p),
                   size_original = length b, size_compressed = length b\<rparr>)\<rparr>\<rparr>),
              processedFiles := processedFiles ?wa + 1\<rparr>, None)"
    using en rd cm gc pf np why wb uc dap wr
    by (simp add: process_candidate_def process_candidate_cached_def store_result_def
        readFileSync_def saveToCache_def)
  then show "\<exists>wc mb. process_candidate E cfg w p = (wc, None)
               \<and> disk wc = da(?art \<mapsto> File b)
               \<and> disk wc p = Some (File b)
               \<and> cacheManager wc = Some mb
               \<and> entries (manifest mb) p
                    = Some \<lparr>sourceHash = sha256_hex E b, compressedPath = ?art,
                            timestamp = date_now E,
                            settings = used_json (getUsedConfig cfg p),
                            size_original = length b, size_compressed = length b\<rparr>"
    using db dap by simp
qed


lemma b_css_facts:
  "cache_enabled (compressionConfig cache_in_r)"
  "\<not> cache_enabled (compressionConfig cache_off)"
  "getUsedConfig (compressionConfig cache_in_r) ''/r/dist/b.css'' = Some (JObj [], ''css'')"
  "getUsedConfig (compressionConfig cache_off) ''/r/dist/b.css'' = Some (JObj [], ''css'')"
  "getUsedConfig (compressionConfig cache_in_r) ''/r/dist/e.css'' = Some (JObj [], ''css'')"
  "obj_get (compressionConfig cache_in_r) ''css'' = JObj []"
  "obj_get (compressionConfig cache_off) ''css'' = JObj []"
  by code_simp+

lemma css_dispatch:
  "\<not> regex_ext_test image_exts ''/r/dist/b.css''" "\<not> regex_ext_test html_exts ''/r/dist/b.css''"
  "\<not> regex_ext_test js_exts ''/r/dist/b.css''" "\<not> regex_ext_test svg_exts ''/r/dist/b.css''"
  "regex_ext_test css_exts ''/r/dist/b.css''"
  "\<not> regex_ext_test image_exts ''/r/dist/e.css''" "\<not> regex_ext_test html_exts ''/r/dist/e.css''"
  "\<not> regex_ext_test js_exts ''/r/dist/e.css''" "\<not> regex_ext_test svg_exts ''/r/dist/e.css''"
  "regex_ext_test css_exts ''/r/dist/e.css''"
  by code_simp+

lemma b_css_minified:
  "csso_minify sample_env (utf8_decode sample_env ''b{c:d}'') c = Returns (js_of_ascii ''b{c:d}'')"
  "csso_minify failing_env (utf8_decode failing_env ''b{c:d}'') c = Throws ''parse error''"
  "csso_minify sample_env (utf8_decode sample_env [CHR 0x20, CHR 0x20]) c = Returns []"
  by (simp_all add: sample_env_def failing_env_def drop_spaces_def js_of_ascii_def)

lemma b_css_hash:
  "sha256_hex sample_env ''b{c:d}'' = ''627b633a647d''"
  "sha256_hex failing_env ''b{c:d}'' = ''627b633a647d''"
  "sha256_hex sample_env [CHR 0x20, CHR 0x20] = ''2020''"
  by (simp_all add: sample_env_def failing_env_def hex_dump_def hex_char_def char_of_eq_iff)

lemma b_css_attempt:
  assumes "disk w ''/r/dist/b.css'' = Some (File ''b{c:d}'')"
  shows "processFile sample_env (compressionConfig cache_in_r) w ''/r/dist/b.css''
           = Inr (\<lparr>processed = False, reason = BiggerSize, originalSize = 6, newSize = 0,
                    usedConfig = css_settings\<rparr>, w)"
    and "processFile sample_env (compressionConfig cache_off) w ''/r/dist/b.css''
           = Inr (\<lparr>processed = False, reason = BiggerSize, originalSize = 6, newSize = 0,
                    usedConfig = css_settings\<rparr>, w)"
    and "processFile failing_env (compressionConfig cache_in_r) w ''/r/dist/b.css''
           = Inr (\<lparr>processed = False, reason = ''parse error'', originalSize = 6, newSize = 0,
                    usedConfig = css_settings\<rparr>, w)"
  using assms
  by (simp_all add: processFile_def statSync_size_def css_dispatch b_css_facts process_css_def
      readFileSync_def b_css_minified nonempty_text_def handleCompressedResult_file [OF assms]
      content_length_def js_of_ascii_def finish_def caught_def used_json_def css_settings_def)


lemma cached_world_facts:
  "disk cached_world = cached_fs"
  "cacheManager cached_world = Some (new_manager ''/r/cache'')"
  "skippedFiles cached_world = 0"
  "cached_fs ''/r/dist/b.css'' = Some (File ''b{c:d}'')"
  "cached_fs ''/r/dist/e.css'' = Some (File [CHR 0x20, CHR 0x20])"
  "cached_fs ''/r/cache/627b633a647d.css'' = None"
  "cached_fs ''/r/cache/2020.css'' = None"
  "cached_fs ''/r/cache'' = Some Dir"
  "entries (manifest (new_manager ''/r/cache'')) = Map.empty"
  "cachedFilePath (new_manager ''/r/cache'') ''/r/dist/b.css'' ''627b633a647d''
     = ''/r/cache/627b633a647d.css''"
  "cachedFilePath (new_manager ''/r/cache'') ''/r/dist/e.css'' ''2020'' = ''/r/cache/2020.css''"
  "dirname ''/r/cache/627b633a647d.css'' = ''/r/cache''"
  by (simp_all add: cached_world_def new_integration_def cached_fs_def new_manager_def
      empty_manifest_def cachedFilePath_def path_join_def last_segment_def dirname_def)

theorem rejected_attempt_outcome_witness:
  "process_candidate sample_env (compressionConfig cache_off) (new_integration cached_fs) ''/r/dist/b.css''
     = ((new_integration cached_fs)\<lparr>skippedFiles := 1\<rparr>, None)
   \<and> process_candidate failing_env (compressionConfig cache_in_r) cached_world ''/r/dist/b.css''
     = (cached_world\<lparr>disk := cached_fs, cacheManager := Some (new_manager ''/r/cache''),
                      skippedFiles := 1\<rparr>, None)
   \<and> (\<exists>wc mb. process_candidate sample_env (compressionConfig cache_in_r) cached_world ''/r/dist/b.css''
                  = (wc, None)
          \<and> disk wc = cached_fs(''/r/cache/627b633a647d.css'' \<mapsto> File ''b{c:d}'')
          \<and> disk wc ''/r/dist/b.css'' = Some (File ''b{c:d}'')
          \<and> cacheManager wc = Some mb
          \<and> entries (manifest mb) ''/r/dist/b.css''
               = Some \<lparr>sourceHash = ''627b633a647d'', compressedPath = ''/r/cache/627b633a647d.css'',
                       timestamp = date_now sample_env, settings = css_settings,
                       size_original = length ''b{c:d}'', size_compressed = length ''b{c:d}''\<rparr>)"
proof -
  let ?p = "''/r/dist/b.css''"
  let ?m = "new_manager ''/r/cache''"
  let ?res = "\<lparr>processed = False, reason = BiggerSize, originalSize = 6, newSize = 0,
                usedConfig = css_settings\<rparr>"
  let ?bad = "\<lparr>processed = False, reason = ''parse error'', originalSize = 6, newSize = 0,
                usedConfig = css_settings\<rparr>"
  let ?wa = "cached_world\<lparr>disk := cached_fs, cacheManager := Some ?m\<rparr>"
  have f0: "disk (new_integration cached_fs) ?p = Some (File ''b{c:d}'')"
    by (simp add: new_integration_def cached_world_facts)
  have fa: "disk ?wa ?p = Some (File ''b{c:d}'')"
    by (simp add: cached_world_facts)
  have z: "skippedFiles (new_integration cached_fs) = 0" by (simp add: new_integration_def)
  have used: "used_json (getUsedConfig (compressionConfig cache_in_r) ?p) = css_settings"
    by (simp add: b_css_facts used_json_def css_settings_def)
  have rd: "readFileSync (disk cached_world) ?p = Inr ''b{c:d}''"
    by (simp add: readFileSync_def cached_world_facts)
  have gc: "getCachedFile ?m (disk cached_world) ?p h u = (None, ?m, cached_fs)" for h u
    by (simp add: getCachedFile_def cached_world_facts)
  have why: "''parse error'' \<noteq> BiggerSize" by (simp add: BiggerSize_def)
  have wr: "writeFileSync cached_fs ''/r/cache/627b633a647d.css'' ''b{c:d}''
              = Inr (cached_fs(''/r/cache/627b633a647d.css'' \<mapsto> File ''b{c:d}''))"
    by (simp add: writeFileSync_def cached_world_facts)
  have one: "process_candidate sample_env (compressionConfig cache_off) (new_integration cached_fs) ?p
     = ((new_integration cached_fs)\<lparr>skippedFiles := 1\<rparr>, None)"
    using rejected_attempt_outcome [where cfg = "compressionConfig cache_off" and E = sample_env
        and w = "new_integration cached_fs" and p = ?p and res = ?res
        and wb = "new_integration cached_fs"]
      b_css_attempt(2) [OF f0] b_css_facts(2) z
    by simp
  have two: "process_candidate failing_env (compressionConfig cache_in_r) cached_world ?p
     = (cached_world\<lparr>disk := cached_fs, cacheManager := Some ?m, skippedFiles := 1\<rparr>, None)"
    using rejected_attempt_outcome [where cfg = "compressionConfig cache_in_r" and E = failing_env
        and w = cached_world and p = ?p and res = ?bad and wb = ?wa and b = "''b{c:d}''"
        and m = ?m and ma = ?m and da = cached_fs]
      b_css_attempt(3) [OF fa] b_css_facts(1) rd gc why cached_world_facts(2,3)
    by simp
  have three: "\<exists>wc mb. process_candidate sample_env (compressionConfig cache_in_r) cached_world ?p
                  = (wc, None)
          \<and> disk wc = cached_fs(''/r/cache/627b633a647d.css'' \<mapsto> File ''b{c:d}'')
          \<and> disk wc ?p = Some (File ''b{c:d}'')
          \<and> cacheManager wc = Some mb
          \<and> entries (manifest mb) ?p
               = Some \<lparr>sourceHash = ''627b633a647d'', compressedPath = ''/r/cache/627b633a647d.css'',
                       timestamp = date_now sample_env, settings = css_settings,
                       size_original = length ''b{c:d}'', size_compressed = length ''b{c:d}''\<rparr>"
    using rejected_attempt_outcome [where cfg = "compressionConfig cache_in_r" and E = sample_env
        and w = cached_world and p = ?p and res = ?res and wb = ?wa and b = "''b{c:d}''"
        and m = ?m and ma = ?m and da = cached_fs
        and db = "cached_fs(''/r/cache/627b633a647d.css'' \<mapsto> File ''b{c:d}'')"]
      b_css_attempt(1) [OF fa] b_css_facts(1) rd gc wr cached_world_facts(2,10) b_css_hash(1) used
    by simp
  from one two three show ?thesis by blast
qed


text \<open>
  Only the reason \<open>BiggerSize\<close> leads to \<open>saveToCache\<close>. A blank style sheet, for which
  the minifier has no output, is counted as skipped with caching enabled, and neither a
  manifest entry nor an artifact is written for it.
\<close>

theorem rejection_without_output_not_cached_counterexample:
  "cache_enabled (compressionConfig cache_in_r)
   \<and> cached_fs ''/r/dist/e.css'' = Some (File [CHR 0x20, CHR 0x20])
   \<and> process_candidate sample_env (compressionConfig cache_in_r) cached_world ''/r/dist/e.css''
       = (cached_world\<lparr>disk := cached_fs, cacheManager := Some (new_manager ''/r/cache''),
                        skippedFiles := 1\<rparr>, None)
   \<and> entries (manifest (new_manager ''/r/cache'')) ''/r/dist/e.css'' = None
   \<and> cached_fs (cachedFilePath (new_manager ''/r/cache'') ''/r/dist/e.css''
                   (sha256_hex sample_env [CHR 0x20, CHR 0x20])) = None"
proof -
  let ?p = "''/r/dist/e.css''"
  let ?m = "new_manager ''/r/cache''"
  let ?wa = "cached_world\<lparr>disk := cached_fs, cacheManager := Some ?m\<rparr>"
  have fa: "disk ?wa ?p = Some (File [CHR 0x20, CHR 0x20])"
    by (simp add: cached_world_facts)
  have why: "NoOutput \<noteq> BiggerSize" by (simp add: NoOutput_def BiggerSize_def)
  have pf: "processFile sample_env (compressionConfig cache_in_r) ?wa ?p
           = Inr (\<lparr>processed = False, reason = NoOutput, originalSize = 2, newSize = 0,
                    usedConfig = css_settings\<rparr>, ?wa)"
    using fa
    by (simp add: processFile_def statSync_size_def css_dispatch b_css_facts process_css_def
        readFileSync_def b_css_minified nonempty_text_def finish_def used_json_def
        css_settings_def)
  have pc: "process_candidate sample_env (compressionConfig cache_in_r) cached_world ?p
       = (cached_world\<lparr>disk := cached_fs, cacheManager := Some ?m, skippedFiles := 1\<rparr>, None)"
    using pf why
    by (simp add: process_candidate_def process_candidate_cached_def b_css_facts
        readFileSync_def getCachedFile_def cached_world_facts)
  show ?thesis
    using pc by (simp add: b_css_facts cached_world_facts b_css_hash)
qed



section \<open>Two builds in a row\<close>

lemma process_css_indep:
  assumes "disk w p = Some (File b)" and "disk v p = Some (File b)"
  shows "fst (process_css E cfg w p n u) = fst (process_css E cfg v p n u)"
  by (simp add: process_css_def readFileSync_def assms handleCompressedResult_file [OF assms(1)]
      handleCompressedResult_file [OF assms(2)] caught_def finish_def
      split: outcome.splits option.splits)

lemma process_svg_indep:
  assumes "disk w p = Some (File b)" and "disk v p = Some (File b)"
  shows "fst (process_svg E cfg w p n u) = fst (process_svg E cfg v p n u)"
  by (simp add: process_svg_def readFileSync_def assms handleCompressedResult_file [OF assms(1)]
      handleCompressedResult_file [OF assms(2)] caught_def finish_def handleError_def
      split: outcome.splits option.splits)

lemma process_js_indep:
  assumes "disk w p = Some (File b)" and "disk v p = Some (File b)"
  shows "fst (process_js E cfg w p n u) = fst (process_js E cfg v p n u)"
  by (simp add: process_js_def readFileSync_def assms handleCompressedResult_file [OF assms(1)]
      handleCompressedResult_file [OF assms(2)] caught_def finish_def handleError_def
      split: outcome.splits option.splits)

lemma process_html_indep:
  assumes "disk w p = Some (File b)" and "disk v p = Some (File b)"
  shows "fst (process_html E cfg w p n u) = fst (process_html E cfg v p n u)"
  by (simp add: process_html_def readFileSync_def assms handleCompressedResult_file [OF assms(1)]
      handleCompressedResult_file [OF assms(2)] caught_def finish_def
      split: outcome.splits option.splits)

lemma process_image_indep:
  assumes "disk w p = Some (File b)" and "disk v p = Some (File b)"
  shows "fst (process_image E cfg w p n u) = fst (process_image E cfg v p n u)"
  by (simp add: process_image_def readFileSync_def assms handleCompressedResult_file [OF assms(1)]
      handleCompressedResult_file [OF assms(2)] caught_def finish_def
      split: outcome.splits option.splits)

lemma processFile_attempt:
  assumes "disk w p = Some (File b)"
  shows "\<exists>wa. processFile E cfg w p = Inr (attempt E cfg p b, wa)
           \<and> outcome_ok w p (length b) (used_json (getUsedConfig cfg p)) (attempt E cfg p b, wa)"
proof -
  have pb: "disk (probe p b) p = Some (File b)"
    by (simp add: probe_def new_integration_def)
  from processFile_ok [OF assms, of E cfg] obtain r where r: "processFile E cfg w p = Inr r"
    and ok: "outcome_ok w p (length b) (used_json (getUsedConfig cfg p)) r" by blast
  from processFile_ok [OF pb, of E cfg] obtain r0 where r0: "processFile E cfg (probe p b) p = Inr r0"
    by blast
  have "fst r = fst r0"
    using r r0 process_image_indep [OF assms pb] process_html_indep [OF assms pb]
      process_js_indep [OF assms pb] process_svg_indep [OF assms pb] process_css_indep [OF assms pb]
    by (auto simp: processFile_def statSync_size_def assms pb finish_def Let_def split: if_splits)
  then have "fst r = attempt E cfg p b" by (simp add: attempt_def r0)
  with r ok show ?thesis by (cases r) auto
qed

lemma writeFileSync_Inr:
  "writeFileSync fs a x = Inr fs1 \<Longrightarrow> fs1 = fs(a \<mapsto> File x) \<and> fs a \<noteq> Some Dir"
  by (auto simp: writeFileSync_def split: option.splits node.splits if_splits)

lemma store_result_ok:
  assumes "store_result E wa m p h n res = (wb, None)" and "disk wa p = Some (File x)"
  shows "wb = wa\<lparr>disk := (disk wa)(cachedFilePath m p h \<mapsto> File x),
                 cacheManager := Some (m\<lparr>manifest := (manifest m)\<lparr>entries := (entries (manifest m))(p \<mapsto>
                    \<lparr>sourceHash = h, compressedPath = cachedFilePath m p h, timestamp = date_now E,
                     settings = usedConfig res, size_original = n, size_compressed = length x\<rparr>)\<rparr>\<rparr>),
                 processedFiles := processedFiles wa + 1\<rparr>
         \<and> disk wa (cachedFilePath m p h) \<noteq> Some Dir"
  using assms
  by (auto simp: store_result_def readFileSync_def saveToCache_def Let_def
      split: sum.splits dest!: writeFileSync_Inr)

lemma cached_miss_step:
  assumes "cache_enabled cfg" and "cacheManager w = Some m" and "entries (manifest m) p = None"
    and "disk w p = Some (File b)"
  shows "\<exists>wa. outcome_ok w p (length b) (used_json (getUsedConfig cfg p)) (attempt E cfg p b, wa)
           \<and> process_candidate E cfg w p
               = (if processed (attempt E cfg p b) \<or> reason (attempt E cfg p b) = BiggerSize
                  then store_result E wa m p (sha256_hex E b) (length b) (attempt E cfg p b)
                  else (wa\<lparr>skippedFiles := skippedFiles wa + 1\<rparr>, None))"
proof -
  have same: "w\<lparr>cacheManager := Some m\<rparr> = w"
    using assms(2) by (cases w) simp
  from processFile_attempt [OF assms(4), of E cfg] obtain wa
    where pf: "processFile E cfg w p = Inr (attempt E cfg p b, wa)"
      and ok: "outcome_ok w p (length b) (used_json (getUsedConfig cfg p)) (attempt E cfg p b, wa)"
    by blast
  have "process_candidate E cfg w p
               = (if processed (attempt E cfg p b) \<or> reason (attempt E cfg p b) = BiggerSize
                  then store_result E wa m p (sha256_hex E b) (length b) (attempt E cfg p b)
                  else (wa\<lparr>skippedFiles := skippedFiles wa + 1\<rparr>, None))"
    using assms pf
    by (simp add: process_candidate_def process_candidate_cached_def readFileSync_def
        getCachedFile_def same)
  with ok show ?thesis by blast
qed



lemma settled_frame:
  assumes "settled E cfg dir fs0 mf d q"
    and "entries mf1 q = entries mf q" and "d1 q = d q"
    and "d1 (artifact_path E dir fs0 q) = d (artifact_path E dir fs0 q)"
  shows "settled E cfg dir fs0 mf1 d1 q"
  using assms unfolding settled_def by (auto split: if_splits)

lemma well_separated_artifacts:
  assumes "well_separated E dir fs0 cs" and "p \<in> set cs" and "q \<in> set cs" and "q \<noteq> p"
  shows "artifact_path E dir fs0 q \<noteq> artifact_path E dir fs0 p"
    and "artifact_path E dir fs0 q \<noteq> p" and "q \<noteq> artifact_path E dir fs0 p"
proof -
  from assms(1) have inj: "inj_on (artifact_path E dir fs0) (set cs)"
    and out: "\<forall>p \<in> set cs. artifact_path E dir fs0 p \<notin> set cs"
    unfolding well_separated_def by (simp_all add: distinct_map)
  from inj assms(2-4) show "artifact_path E dir fs0 q \<noteq> artifact_path E dir fs0 p"
    by (auto dest: inj_onD)
  from out assms(2,3) show "artifact_path E dir fs0 q \<noteq> p" by blast
  from out assms(2,3) show "q \<noteq> artifact_path E dir fs0 p" by blast
qed

lemma first_build_step:
  assumes sep: "well_separated E dir fs0 cs" and en: "cache_enabled cfg"
    and inv: "first_inv E cfg dir fs0 cs D w seen"
    and p: "p \<in> set cs" "p \<notin> set seen" and sub: "set seen \<subseteq> set cs"
    and step: "process_candidate E cfg w p = (wb, None)"
  shows "first_inv E cfg dir fs0 cs D wb (seen @ [p])"
proof -
  let ?art = "artifact_path E dir fs0"
  from inv obtain m where m: "cacheManager w = Some m" and cd: "cacheDir m = dir"
    and none: "\<forall>q. q \<notin> set seen \<longrightarrow> entries (manifest m) q = None"
    and st: "\<forall>q \<in> set seen. settled E cfg dir fs0 (manifest m) (disk w) q"
    and rest: "\<forall>q \<in> set cs. q \<notin> set seen \<longrightarrow> disk w q = fs0 q"
    and dirs: "\<forall>q \<in> D. disk w q = Some Dir"
    and cnt: "processedFiles w = length (filter (cacheable E cfg fs0) seen)"
      "skippedFiles w = length (filter (\<lambda>q. \<not> cacheable E cfg fs0 q) seen)"
      "cacheHits w = 0"
    unfolding first_inv_def by blast
  from sep p(1) obtain b where b: "fs0 p = Some (File b)"
    unfolding well_separated_def by blast
  then have fb: "file_bytes fs0 p = b" by (simp add: file_bytes_def)
  have dp: "disk w p = Some (File b)" using rest p b by simp
  have np: "entries (manifest m) p = None" using none p(2) by simp
  let ?res = "attempt E cfg p b"
  have cb: "cacheable E cfg fs0 p \<longleftrightarrow> processed ?res \<or> reason ?res = BiggerSize"
    by (simp add: cacheable_def fb)
  from cached_miss_step [OF en m np dp, of E] obtain wa
    where ok: "outcome_ok w p (length b) (used_json (getUsedConfig cfg p)) (?res, wa)"
      and pc: "process_candidate E cfg w p
               = (if processed ?res \<or> reason ?res = BiggerSize
                  then store_result E wa m p (sha256_hex E b) (length b) ?res
                  else (wa\<lparr>skippedFiles := skippedFiles wa + 1\<rparr>, None))"
    by blast
  have uc: "usedConfig ?res = used_json (getUsedConfig cfg p)"
    using ok by (simp add: outcome_ok_def)
  show ?thesis
  proof (cases "cacheable E cfg fs0 p")
    case False
    with cb ok have wa: "wa = w" by (auto simp: outcome_ok_def)
    from False cb pc step wa have wb: "wb = w\<lparr>skippedFiles := skippedFiles w + 1\<rparr>" by simp
    have sp: "settled E cfg dir fs0 (manifest m) (disk w) p"
      using False np dp b by (simp add: settled_def)
    show ?thesis
      unfolding first_inv_def
      using m cd none st rest dirs cnt False sp
      by (intro exI [of _ m]) (auto simp: wb)
  next
    case True
    with cb pc step have sr: "store_result E wa m p (sha256_hex E b) (length b) ?res = (wb, None)"
      by simp
    obtain x where dwa: "disk wa = (disk w)(p \<mapsto> File x)"
      and oth: "cacheManager wa = cacheManager w" "processedFiles wa = processedFiles w"
        "skippedFiles wa = skippedFiles w" "cacheHits wa = cacheHits w"
    proof (cases "processed ?res")
      case True
      with ok obtain c where "wa = w\<lparr>disk := (disk w)(p \<mapsto> File (content_bytes c)),
                          originalSizeTotal := originalSizeTotal w + length b,
                          newSizeTotal := newSizeTotal w + length (content_bytes c)\<rparr>"
        by (auto simp: outcome_ok_def)
      then show ?thesis by (intro that [of "content_bytes c"]) simp_all
    next
      case False
      with ok have "wa = w" by (auto simp: outcome_ok_def)
      then show ?thesis using dp by (intro that [of b]) (simp_all add: fun_upd_idem)
    qed
    have x: "disk wa p = Some (File x)" by (simp add: dwa)
    have ap: "cachedFilePath m p (sha256_hex E b) = ?art p"
      by (simp add: cachedFilePath_def artifact_path_def cd fb)
    let ?e = "\<lparr>sourceHash = sha256_hex E b, compressedPath = ?art p, timestamp = date_now E,
               settings = usedConfig ?res, size_original = length b, size_compressed = length x\<rparr>"
    let ?m = "m\<lparr>manifest := (manifest m)\<lparr>entries := (entries (manifest m))(p \<mapsto> ?e)\<rparr>\<rparr>"
    from store_result_ok [OF sr x]
    have wb: "wb = wa\<lparr>disk := (disk wa)(?art p \<mapsto> File x), cacheManager := Some ?m,
                      processedFiles := processedFiles wa + 1\<rparr>"
      and nd: "disk wa (?art p) \<noteq> Some Dir"
      unfolding ap by simp_all
    have dwb: "disk wb = (disk w)(p \<mapsto> File x, ?art p \<mapsto> File x)"
      by (simp add: wb dwa)
    have cmb: "cacheManager wb = Some ?m" by (simp add: wb)
    have apc: "?art p \<notin> set cs"
      using sep p(1) unfolding well_separated_def by blast
    have c1: "\<forall>q. q \<notin> set (seen @ [p]) \<longrightarrow> entries (manifest ?m) q = None"
      using none by simp
    have sp: "settled E cfg dir fs0 (manifest ?m) (disk wb) p"
      using True uc fb by (auto simp: settled_def dwb)
    have sq: "settled E cfg dir fs0 (manifest ?m) (disk wb) q" if q: "q \<in> set seen" for q
    proof -
      have qc: "q \<in> set cs" and qp: "q \<noteq> p" using q sub p(2) by auto
      note ws = well_separated_artifacts [OF sep p(1) qc qp]
      show ?thesis
        by (rule settled_frame [OF st [rule_format, OF q]]) (use qp ws in \<open>simp_all add: dwb\<close>)
    qed
    have c2: "\<forall>q \<in> set (seen @ [p]). settled E cfg dir fs0 (manifest ?m) (disk wb) q"
      using sp sq by auto
    have c3: "\<forall>q \<in> set cs. q \<notin> set (seen @ [p]) \<longrightarrow> disk wb q = fs0 q"
      using rest apc by (auto simp: dwb)
    have c4: "\<forall>q \<in> D. disk wb q = Some Dir"
    proof
      fix q assume q: "q \<in> D"
      with dirs have dq: "disk w q = Some Dir" by blast
      with dp have qp: "q \<noteq> p" by auto
      have "q \<noteq> ?art p"
      proof
        assume "q = ?art p"
        with dq qp have "disk wa (?art p) = Some Dir" by (simp add: dwa)
        with nd show False by contradiction
      qed
      with qp dq show "disk wb q = Some Dir" by (simp add: dwb)
    qed
    have c5: "processedFiles wb = length (filter (cacheable E cfg fs0) (seen @ [p]))"
      "skippedFiles wb = length (filter (\<lambda>q. \<not> cacheable E cfg fs0 q) (seen @ [p]))"
      "cacheHits wb = 0"
      using cnt True oth by (simp_all add: wb)
    show ?thesis
      unfolding first_inv_def
      using cmb cd c1 c2 c3 c4 c5 by (intro exI [of _ ?m]) simp
  qed
qed


lemma first_build_loop:
  assumes sep: "well_separated E dir fs0 cs" and en: "cache_enabled cfg"
  shows "first_inv E cfg dir fs0 cs D w seen \<Longrightarrow> set seen \<union> set rest \<subseteq> set cs
         \<Longrightarrow> distinct (seen @ rest) \<Longrightarrow> process_candidates E cfg w rest = (wb, None)
         \<Longrightarrow> first_inv E cfg dir fs0 cs D wb (seen @ rest)"
proof (induction rest arbitrary: w seen)
  case Nil
  then show ?case by simp
next
  case (Cons p rest)
  obtain wa err where s: "process_candidate E cfg w p = (wa, err)"
    by (cases "process_candidate E cfg w p")
  from Cons.prems(4) s have err: "err = None" and r: "process_candidates E cfg wa rest = (wb, None)"
    by (cases err; simp)+
  have p: "p \<in> set cs" "p \<notin> set seen" and sub: "set seen \<subseteq> set cs"
    using Cons.prems(2,3) by auto
  from first_build_step [OF sep en Cons.prems(1) p sub s [unfolded err]]
  have i: "first_inv E cfg dir fs0 cs D wa (seen @ [p])" .
  have "first_inv E cfg dir fs0 cs D wb ((seen @ [p]) @ rest)"
    by (rule Cons.IH [OF i _ _ r]) (use Cons.prems(2,3) in auto)
  then show ?case by simp
qed

lemma second_build_step:
  assumes sep: "well_separated E dir fs0 cs" and en: "cache_enabled cfg"
    and st: "\<forall>q \<in> set cs. settled E cfg dir fs0 (manifest m) d1 q"
    and fs1: "\<forall>q. fs1 q = (if q \<in> set cs then fs0 q else d1 q)"
    and inv: "second_inv E cfg fs0 m d1 fs1 w seen"
    and p: "p \<in> set cs" "p \<notin> set seen" and sub: "set seen \<subseteq> set cs"
  shows "\<exists>wb. process_candidate E cfg w p = (wb, None)
               \<and> second_inv E cfg fs0 m d1 fs1 wb (seen @ [p])"
proof -
  let ?art = "artifact_path E dir fs0"
  from inv have m: "cacheManager w = Some m"
    and dw: "\<forall>q. disk w q = (if q \<in> set seen then d1 q else fs1 q)"
    and cnt: "processedFiles w = 0"
      "cacheHits w = length (filter (cacheable E cfg fs0) seen)"
      "skippedFiles w = length (filter (\<lambda>q. \<not> cacheable E cfg fs0 q) seen)"
    unfolding second_inv_def by blast+
  from sep p(1) obtain b where b: "fs0 p = Some (File b)"
    unfolding well_separated_def by blast
  then have fb: "file_bytes fs0 p = b" by (simp add: file_bytes_def)
  have dp: "disk w p = Some (File b)" using dw fs1 p b by simp
  have same: "w\<lparr>cacheManager := Some m\<rparr> = w" using m by (cases w) simp
  from st p(1) have sp: "settled E cfg dir fs0 (manifest m) d1 p" by blast
  show ?thesis
  proof (cases "cacheable E cfg fs0 p")
    case True
    with sp obtain e c where e: "entries (manifest m) p = Some e"
      and f: "sourceHash e = sha256_hex E b" "settings e = used_json (getUsedConfig cfg p)"
        "compressedPath e = ?art p"
      and a: "d1 (?art p) = Some (File c)" and dc: "d1 p = Some (File c)"
      unfolding settled_def fb by auto
    have apc: "?art p \<notin> set cs"
      using sep p(1) unfolding well_separated_def by blast
    then have "?art p \<notin> set seen" using sub by blast
    with dw fs1 apc a have da: "disk w (?art p) = Some (File c)" by simp
    have gc: "getCachedFile m (disk w) p (sha256_hex E b) (used_json (getUsedConfig cfg p))
                = (Some e, m, disk w)"
      using e f da by (simp add: getCachedFile_def path_exists_def)
    have pc: "process_candidate E cfg w p
                = (w\<lparr>disk := (disk w)(p \<mapsto> File c),
                     originalSizeTotal := originalSizeTotal w + size_original e,
                     newSizeTotal := newSizeTotal w + size_compressed e,
                     cacheHits := cacheHits w + 1\<rparr>, None)"
      using en m dp gc f da
      by (simp add: process_candidate_def process_candidate_cached_def readFileSync_def same
          restore_from_cache_def writeFileSync_def)
    show ?thesis
      unfolding pc second_inv_def using m dw cnt True dc by auto
  next
    case False
    with sp have np: "entries (manifest m) p = None" and d1p: "d1 p = fs0 p"
      unfolding settled_def by auto
    from False have nc: "\<not> (processed (attempt E cfg p b) \<or> reason (attempt E cfg p b) = BiggerSize)"
      by (simp add: cacheable_def fb)
    from cached_miss_step [OF en m np dp, of E] nc obtain wa
      where ok: "outcome_ok w p (length b) (used_json (getUsedConfig cfg p)) (attempt E cfg p b, wa)"
        and pc: "process_candidate E cfg w p = (wa\<lparr>skippedFiles := skippedFiles wa + 1\<rparr>, None)"
      by auto
    from ok nc have wa: "wa = w" by (auto simp: outcome_ok_def)
    show ?thesis
      unfolding pc wa second_inv_def using m dw cnt False d1p fs1 p by auto
  qed
qed

lemma second_build_loop:
  assumes sep: "well_separated E dir fs0 cs" and en: "cache_enabled cfg"
    and st: "\<forall>q \<in> set cs. settled E cfg dir fs0 (manifest m) d1 q"
    and fs1: "\<forall>q. fs1 q = (if q \<in> set cs then fs0 q else d1 q)"
  shows "second_inv E cfg fs0 m d1 fs1 w seen \<Longrightarrow> set seen \<union> set rest \<subseteq> set cs
         \<Longrightarrow> distinct (seen @ rest)
         \<Longrightarrow> \<exists>wb. process_candidates E cfg w rest = (wb, None)
                  \<and> second_inv E cfg fs0 m d1 fs1 wb (seen @ rest)"
proof (induction rest arbitrary: w seen)
  case Nil
  then show ?case by simp
next
  case (Cons p rest)
  have p: "p \<in> set cs" "p \<notin> set seen" and sub: "set seen \<subseteq> set cs"
    using Cons.prems(2,3) by auto
  from second_build_step [OF sep en st fs1 Cons.prems(1) p sub] obtain wa
    where s: "process_candidate E cfg w p = (wa, None)"
      and i: "second_inv E cfg fs0 m d1 fs1 wa (seen @ [p])" by blast
  have "\<exists>wb. process_candidates E cfg wa rest = (wb, None)
              \<and> second_inv E cfg fs0 m d1 fs1 wb ((seen @ [p]) @ rest)"
    by (rule Cons.IH [OF i]) (use Cons.prems(2,3) in auto)
  with s show ?case by simp
qed


lemma mkdirSync_Inr:
  assumes "mkdirSync fs p = Inr fsa"
  shows "(\<forall>q \<in> set (prefixes_from [] p). \<forall>b. fs q \<noteq> Some (File b))
         \<and> fsa = (\<lambda>q. if q \<in> set (prefixes_from [] p) then Some Dir else fs q)"
  using assms by (auto simp: mkdirSync_def Let_def split: if_splits)

lemma initialize_fresh:
  assumes "initialize E m fs = (ma, fa, None)" and "fs (manifestPath m) = None"
  shows "ma = m
         \<and> (\<forall>q \<in> set (prefixes_from [] (cacheDir m)). \<forall>b. fs q \<noteq> Some (File b))
         \<and> (\<forall>q \<in> set (prefixes_from [] (cacheDir m)). fa q = Some Dir)
         \<and> fa (manifestPath m) = Some (File (manifest_stringify E (manifest m)))
         \<and> (\<forall>q. q \<notin> set (prefixes_from [] (cacheDir m)) \<longrightarrow> q \<noteq> manifestPath m \<longrightarrow> fa q = fs q)"
proof -
  from assms(1) obtain fsa where mk: "mkdirSync fs (cacheDir m) = Inr fsa"
    by (auto simp: initialize_def split: sum.splits)
  note a = mkdirSync_Inr [OF mk]
  have n: "fsa (manifestPath m) = None"
    using a assms(2) manifestPath_not_prefix [of m] by simp
  then have ld: "loadManifest E m fsa = Inl (ENOENT (manifestPath m))"
    by (simp add: loadManifest_def readFileSync_def)
  from assms(1) mk ld obtain fsb where sv: "saveManifest E m fsa = Inr fsb"
    and r: "ma = m" "fa = fsb"
    by (auto simp: initialize_def split: sum.splits)
  from writeFileSync_Inr [OF sv [unfolded saveManifest_def]]
  have fsb: "fsb = fsa(manifestPath m \<mapsto> File (manifest_stringify E (manifest m)))" by simp
  show ?thesis
    using a r fsb manifestPath_not_prefix [of m] by auto
qed

lemma initialize_loaded:
  assumes "\<forall>q \<in> set (prefixes_from [] (cacheDir m)). fs q = Some Dir"
    and "fs (manifestPath m) = Some (File b)" and "manifest_parse E b = Some mf"
  shows "initialize E m fs = (m\<lparr>manifest := mf\<rparr>, fs, None)"
proof -
  have "(\<lambda>q. if q \<in> set (prefixes_from [] (cacheDir m)) then Some Dir else fs q) = fs"
    using assms(1) by auto
  moreover have "\<forall>q \<in> set (prefixes_from [] (cacheDir m)). \<forall>b. fs q \<noteq> Some (File b)"
    using assms(1) by simp
  ultimately have "mkdirSync fs (cacheDir m) = Inr fs"
    using mkdirSync_ok [of "cacheDir m" fs] by simp
  then show ?thesis
    using assms(2,3) by (simp add: initialize_def loadManifest_def readFileSync_def)
qed

lemma manifestPath_new_manager: "manifestPath (new_manager d) = path_join d ''manifest.json''"
  by (simp add: manifestPath_def new_manager_def)

lemma first_build_final:
  assumes en: "cache_enabled (compressionConfig options)"
    and sep: "well_separated E (path_join root (cache_dir_setting (compressionConfig options))) fs0 cs"
    and fresh: "fs0 (path_join (path_join root (cache_dir_setting (compressionConfig options)))
                       ''manifest.json'') = None"
    and run: "run_build E options root cs fs0 = (w1, None)"
  shows "\<exists>m1. cacheManager w1 = Some m1
            \<and> (\<forall>q \<in> set cs. settled E (compressionConfig options)
                   (path_join root (cache_dir_setting (compressionConfig options))) fs0
                   (manifest m1) (disk w1) q)
            \<and> (\<forall>q \<in> set (prefixes_from [] (path_join root (cache_dir_setting (compressionConfig options)))).
                   disk w1 q = Some Dir \<and> q \<notin> set cs)
            \<and> disk w1 (path_join (path_join root (cache_dir_setting (compressionConfig options)))
                           ''manifest.json'')
                 = Some (File (manifest_stringify E (manifest m1)))
            \<and> processedFiles w1 = length (filter (cacheable E (compressionConfig options) fs0) cs)
            \<and> skippedFiles w1
                 = length (filter (\<lambda>q. \<not> cacheable E (compressionConfig options) fs0 q) cs)
            \<and> cacheHits w1 = 0"
proof -
  let ?cfg = "compressionConfig options"
  let ?dir = "path_join root (cache_dir_setting ?cfg)"
  let ?mp = "path_join ?dir ''manifest.json''"
  let ?D = "set (prefixes_from [] ?dir)"
  let ?m0 = "new_manager ?dir"
  obtain ma fa erra where ini: "initialize E ?m0 fs0 = (ma, fa, erra)"
    by (cases "initialize E ?m0 fs0") auto
  let ?wA = "(new_integration fs0)\<lparr>disk := fa, cacheManager := Some ma\<rparr>"
  have cdn: "config_done E ?cfg root (new_integration fs0) = (?wA, erra)"
    using en ini by (simp add: config_done_def new_integration_def)
  from run cdn have ea: "erra = None" and bd: "build_done E ?cfg cs ?wA = (w1, None)"
    by (cases erra; simp add: run_build_def)+
  have mp0: "manifestPath ?m0 = ?mp" by (rule manifestPath_new_manager)
  have cd0: "cacheDir ?m0 = ?dir" by (simp add: new_manager_def)
  from initialize_fresh [OF ini [unfolded ea]] fresh
  have ma: "ma = ?m0"
    and nofile: "\<forall>q \<in> ?D. \<forall>b. fs0 q \<noteq> Some (File b)"
    and dirs: "\<forall>q \<in> ?D. fa q = Some Dir"
    and same: "\<forall>q. q \<notin> ?D \<longrightarrow> q \<noteq> ?mp \<longrightarrow> fa q = fs0 q"
    unfolding mp0 cd0 by simp_all
  have files: "\<forall>p \<in> set cs. \<exists>b. fs0 p = Some (File b)" and mpc: "?mp \<notin> set cs"
    and artmp: "\<forall>p \<in> set cs. artifact_path E ?dir fs0 p \<noteq> ?mp"
    and dist: "distinct cs"
    using sep unfolding well_separated_def by blast+
  have Dcs: "\<forall>q \<in> ?D. q \<notin> set cs" using nofile files by blast
  have i0: "first_inv E ?cfg ?dir fs0 cs ?D ?wA []"
    unfolding first_inv_def
    using ma dirs same Dcs mpc
    by (intro exI [of _ ?m0]) (auto simp: new_manager_def empty_manifest_def new_integration_def)
  obtain wE errE where lp: "process_candidates E ?cfg ?wA cs = (wE, errE)"
    by (cases "process_candidates E ?cfg ?wA cs") auto
  from bd lp have eE: "errE = None" by (cases errE; simp add: build_done_def)
  have iE: "first_inv E ?cfg ?dir fs0 cs ?D wE ([] @ cs)"
    by (rule first_build_loop [OF sep en i0 _ _ lp [unfolded eE]]) (use dist in simp_all)
  then obtain mE where mE: "cacheManager wE = Some mE" and cdE: "cacheDir mE = ?dir"
    and stE: "\<forall>q \<in> set cs. settled E ?cfg ?dir fs0 (manifest mE) (disk wE) q"
    and dE: "\<forall>q \<in> ?D. disk wE q = Some Dir"
    and cnt: "processedFiles wE = length (filter (cacheable E ?cfg fs0) cs)"
      "skippedFiles wE = length (filter (\<lambda>q. \<not> cacheable E ?cfg fs0 q) cs)"
      "cacheHits wE = 0"
    unfolding first_inv_def by auto
  have mpE: "manifestPath mE = ?mp" by (simp add: manifestPath_def cdE)
  from bd lp eE en mE obtain d where sv: "saveManifest E mE (disk wE) = Inr d"
    and w1: "w1 = wE\<lparr>disk := d\<rparr>"
    by (auto simp: build_done_def split: sum.splits)
  from writeFileSync_Inr [OF sv [unfolded saveManifest_def]]
  have d: "d = (disk wE)(?mp \<mapsto> File (manifest_stringify E (manifest mE)))"
    and notdir: "disk wE ?mp \<noteq> Some Dir"
    unfolding mpE by simp_all
  have st1: "\<forall>q \<in> set cs. settled E ?cfg ?dir fs0 (manifest mE) (disk w1) q"
  proof
    fix q assume q: "q \<in> set cs"
    show "settled E ?cfg ?dir fs0 (manifest mE) (disk w1) q"
      by (rule settled_frame [OF stE [rule_format, OF q]]) (use q mpc artmp in \<open>auto simp: w1 d\<close>)
  qed
  have D1: "\<forall>q \<in> ?D. disk w1 q = Some Dir \<and> q \<notin> set cs"
    using dE Dcs notdir by (auto simp: w1 d)
  show ?thesis
    using mE st1 D1 cnt by (intro exI [of _ mE]) (simp add: w1 d)
qed


text \<open>
  C1, as the code has it. The hypotheses, in the order of the theorem:
  caching is enabled;
  the candidates and the cache are apart (\<open>well_separated\<close>): the candidates are
  pairwise distinct paths and regular files, no two candidates have the same artifact
  name (the same hash of their bytes and the same final extension), no artifact is
  itself a candidate or has the path of the manifest, and the manifest is not a
  candidate;
  the first build starts without a manifest file;
  the first build ends without error;
  the manifest the first build saved parses back to itself;
  the second build, with the same options, root, candidates and adapters, finds every
  candidate with the bytes it had before the first build (the build output
  regenerated) and every other path as the first build left it.
  Then the second build ends without error and leaves on every path the bytes the
  first build left there; it loads and keeps the manifest of the first build; it
  counts no processed file, so \<open>saveToCache\<close> is never called and no artifact is
  written; it counts one cache hit for every file the first build stored in the cache
  (the first build counts these as processed, and no hit), and it skips the files the
  first build skipped. The tasks of the candidates run one after the other, in the
  order of the candidates.
\<close>

theorem second_build_hits_cache:
  assumes en: "cache_enabled (compressionConfig options)"
    and sep: "well_separated E (path_join root (cache_dir_setting (compressionConfig options))) fs0 cs"
    and fresh: "fs0 (path_join (path_join root (cache_dir_setting (compressionConfig options)))
                       ''manifest.json'') = None"
    and run: "run_build E options root cs fs0 = (w1, None)"
    and rt: "\<forall>m1. cacheManager w1 = Some m1 \<longrightarrow>
               manifest_parse E (manifest_stringify E (manifest m1)) = Some (manifest m1)"
    and fs1: "\<forall>q. fs1 q = (if q \<in> set cs then fs0 q else disk w1 q)"
  shows "\<exists>w2 m1 m2. run_build E options root cs fs1 = (w2, None)
           \<and> disk w2 = disk w1
           \<and> cacheManager w1 = Some m1 \<and> cacheManager w2 = Some m2 \<and> manifest m2 = manifest m1
           \<and> processedFiles w2 = 0
           \<and> cacheHits w2 = processedFiles w1
           \<and> skippedFiles w2 = skippedFiles w1
           \<and> cacheHits w1 = 0
           \<and> processedFiles w1 = length (filter (cacheable E (compressionConfig options) fs0) cs)"
proof -
  let ?cfg = "compressionConfig options"
  let ?dir = "path_join root (cache_dir_setting ?cfg)"
  let ?mp = "path_join ?dir ''manifest.json''"
  let ?D = "set (prefixes_from [] ?dir)"
  let ?m0 = "new_manager ?dir"
  from first_build_final [OF en sep fresh run] obtain m1
    where m1: "cacheManager w1 = Some m1"
      and st: "\<forall>q \<in> set cs. settled E ?cfg ?dir fs0 (manifest m1) (disk w1) q"
      and D1: "\<forall>q \<in> ?D. disk w1 q = Some Dir \<and> q \<notin> set cs"
      and mf: "disk w1 ?mp = Some (File (manifest_stringify E (manifest m1)))"
      and cnt: "processedFiles w1 = length (filter (cacheable E ?cfg fs0) cs)"
        "skippedFiles w1 = length (filter (\<lambda>q. \<not> cacheable E ?cfg fs0 q) cs)"
        "cacheHits w1 = 0"
    by blast
  from rt m1 have parse: "manifest_parse E (manifest_stringify E (manifest m1)) = Some (manifest m1)"
    by blast
  have mpc: "?mp \<notin> set cs" and dist: "distinct cs"
    using sep unfolding well_separated_def by blast+
  let ?mB = "?m0\<lparr>manifest := manifest m1\<rparr>"
  have mp0: "manifestPath ?m0 = ?mp" by (rule manifestPath_new_manager)
  have cd0: "cacheDir ?m0 = ?dir" by (simp add: new_manager_def)
  have mpB: "manifestPath ?mB = ?mp" by (simp add: manifestPath_def new_manager_def)
  have ini: "initialize E ?m0 fs1 = (?mB, fs1, None)"
  proof (rule initialize_loaded)
    show "\<forall>q \<in> set (prefixes_from [] (cacheDir ?m0)). fs1 q = Some Dir"
      unfolding cd0 using D1 fs1 by simp
    show "fs1 (manifestPath ?m0) = Some (File (manifest_stringify E (manifest m1)))"
      unfolding mp0 using mf mpc fs1 by simp
    show "manifest_parse E (manifest_stringify E (manifest m1)) = Some (manifest m1)"
      by (rule parse)
  qed
  let ?wB = "(new_integration fs1)\<lparr>disk := fs1, cacheManager := Some ?mB\<rparr>"
  have cdn: "config_done E ?cfg root (new_integration fs1) = (?wB, None)"
    using en ini by (simp add: config_done_def new_integration_def)
  have i0: "second_inv E ?cfg fs0 ?mB (disk w1) fs1 ?wB []"
    by (simp add: second_inv_def new_integration_def)
  have stB: "\<forall>q \<in> set cs. settled E ?cfg ?dir fs0 (manifest ?mB) (disk w1) q"
    using st by simp
  from second_build_loop [OF sep en stB fs1 i0, of cs] dist obtain wE
    where lp: "process_candidates E ?cfg ?wB cs = (wE, None)"
      and iE: "second_inv E ?cfg fs0 ?mB (disk w1) fs1 wE cs"
    by auto
  from iE have mE: "cacheManager wE = Some ?mB"
    and dE: "\<forall>q. disk wE q = (if q \<in> set cs then disk w1 q else fs1 q)"
    and cE: "processedFiles wE = 0"
      "cacheHits wE = length (filter (cacheable E ?cfg fs0) cs)"
      "skippedFiles wE = length (filter (\<lambda>q. \<not> cacheable E ?cfg fs0 q) cs)"
    unfolding second_inv_def by blast+
  have dEq: "disk wE = disk w1"
    using dE fs1 by auto
  have sv: "saveManifest E ?mB (disk wE)
              = Inr ((disk wE)(?mp \<mapsto> File (manifest_stringify E (manifest m1))))"
    unfolding saveManifest_def mpB using mf by (simp add: writeFileSync_def dEq)
  have same: "(disk w1)(?mp \<mapsto> File (manifest_stringify E (manifest m1))) = disk w1"
    using mf by (simp add: fun_upd_idem)
  let ?w2 = "wE\<lparr>disk := disk w1\<rparr>"
  have bd: "build_done E ?cfg cs ?wB = (?w2, None)"
    using lp en mE sv same by (simp add: build_done_def dEq)
  have rb: "run_build E options root cs fs1 = (?w2, None)"
    using cdn bd by (simp add: run_build_def)
  show ?thesis
    using rb m1 mE cE cnt
    by (intro exI [of _ ?w2] exI [of _ m1] exI [of _ ?mB]) simp
qed

lemma twin_config:
  "cache_enabled (compressionConfig cache_in_r)"
  "path_join ''/r'' (cache_dir_setting (compressionConfig cache_in_r)) = ''/r/cache''"
  "used_json (getUsedConfig (compressionConfig cache_in_r) ''/r/dist/a.css'') = css_settings"
  "used_json (getUsedConfig (compressionConfig cache_in_r) ''/r/dist/notes.txt'') = JNull"
  "obj_get (compressionConfig cache_in_r) ''css'' = JObj []"
  "\<not> regex_ext_test image_exts ''/r/dist/a.css''" "\<not> regex_ext_test html_exts ''/r/dist/a.css''"
  "\<not> regex_ext_test js_exts ''/r/dist/a.css''" "\<not> regex_ext_test svg_exts ''/r/dist/a.css''"
  "regex_ext_test css_exts ''/r/dist/a.css''"
  "\<not> regex_ext_test image_exts ''/r/dist/notes.txt''" "\<not> regex_ext_test html_exts ''/r/dist/notes.txt''"
  "\<not> regex_ext_test js_exts ''/r/dist/notes.txt''" "\<not> regex_ext_test svg_exts ''/r/dist/notes.txt''"
  "\<not> regex_ext_test css_exts ''/r/dist/notes.txt''"
  by code_simp+

lemma test_sheets:
  "sha256_hex reload_env test_css = ''2e74657374207b20636f6c6f723a20236666303030303b207d''"
  "sha256_hex reload_env test_min = ''2e746573747b636f6c6f723a7265647d''"
  "utf8_decode reload_env test_css = js_of_ascii test_css"
  "utf8_decode reload_env test_min = js_of_ascii test_min"
  "js_of_ascii test_min \<noteq> js_of_ascii test_css"
  "utf8_encode (js_of_ascii test_min) = test_min"
  "length (js_of_ascii test_min) = 16"
  "length test_css = 25"
  "length test_min = 16"
  "js_of_ascii test_min \<noteq> []"
  by (simp_all add: reload_env_def sample_env_def hex_dump_def hex_char_def char_of_eq_iff
      js_of_ascii_def test_css_def test_min_def)

lemma reload_env_fields:
  "sha256_hex reload_env ''a  b'' = ''61202062''"
  "date_now reload_env = 1700000000000"
  "csso_minify reload_env (js_of_ascii test_css) c = Returns (js_of_ascii test_min)"
  "csso_minify reload_env (js_of_ascii test_min) c = Returns (js_of_ascii test_min)"
  "manifest_stringify reload_env empty_manifest = ''{}''"
  "manifest_stringify reload_env first_manifest = ''{2e74657374207b20636f6c6f723a20236666303030303b207d}''"
  "manifest_parse reload_env ''{2e74657374207b20636f6c6f723a20236666303030303b207d}'' = Some first_manifest"
  using test_sheets(5)
  by (simp_all add: reload_env_def sample_env_def hex_dump_def hex_char_def char_of_eq_iff
      csso_readme_def empty_manifest_def first_manifest_def first_entry_def)

lemma twin_css_attempt:
  assumes "disk w ''/r/dist/a.css'' = Some (File test_css)"
  shows "processFile reload_env (compressionConfig cache_in_r) w ''/r/dist/a.css''
           = Inr (\<lparr>processed = True, reason = [], originalSize = 25, newSize = 16,
                    usedConfig = css_settings\<rparr>,
                  w\<lparr>disk := (disk w)(''/r/dist/a.css'' \<mapsto> File test_min),
                    originalSizeTotal := originalSizeTotal w + 25,
                    newSizeTotal := newSizeTotal w + 16\<rparr>)"
  using assms
  by (simp add: processFile_def statSync_size_def twin_config process_css_def readFileSync_def
      reload_env_fields test_sheets nonempty_text_def handleCompressedResult_file [OF assms]
      content_length_def content_bytes_def finish_def)

lemma twin_css_again:
  assumes "disk w ''/r/dist/a.css'' = Some (File test_min)"
  shows "processFile reload_env (compressionConfig cache_in_r) w ''/r/dist/a.css''
           = Inr (\<lparr>processed = False, reason = BiggerSize, originalSize = 16, newSize = 0,
                    usedConfig = css_settings\<rparr>, w)"
  using assms
  by (simp add: processFile_def statSync_size_def twin_config process_css_def readFileSync_def
      reload_env_fields test_sheets nonempty_text_def handleCompressedResult_file [OF assms]
      content_length_def finish_def)

lemma twin_notes_attempt:
  assumes "disk w ''/r/dist/notes.txt'' = Some (File ''a  b'')"
  shows "processFile reload_env (compressionConfig cache_in_r) w ''/r/dist/notes.txt''
           = Inr (\<lparr>processed = False, reason = Skipped, originalSize = 4, newSize = 0,
                    usedConfig = JNull\<rparr>, w)"
  using assms
  by (simp add: processFile_def statSync_size_def twin_config finish_def)


lemma twin_first_build:
  "run_build reload_env cache_in_r ''/r'' twin_cs twin_fs = (first_world, None)"
proof -
  let ?cfg = "compressionConfig cache_in_r"
  let ?a = "''/r/dist/a.css''"
  let ?n = "''/r/dist/notes.txt''"
  let ?art = "''/r/cache/2e74657374207b20636f6c6f723a20236666303030303b207d.css''"
  let ?mp = "''/r/cache/manifest.json''"
  let ?m0 = "new_manager ''/r/cache''"
  define fsA where "fsA = (\<lambda>q. if q \<in> set (prefixes_from [] ''/r/cache'') then Some Dir else twin_fs q)
                            (?mp \<mapsto> File ''{}'')"
  have look: "fsA ?a = Some (File test_css)" "fsA ?n = Some (File ''a  b'')"
    "fsA ''/r/cache'' = Some Dir" "fsA ?art = None" "fsA ?mp = Some (File ''{}'')"
    by (simp_all add: fsA_def twin_fs_def)
  have tw: "twin_fs ''/r'' = Some Dir" "twin_fs ''/r/cache'' = None" "twin_fs ?mp = None"
    by (simp_all add: twin_fs_def)
  have ini: "initialize reload_env ?m0 twin_fs = (?m0, fsA, None)"
    by (simp add: initialize_def mkdirSync_def loadManifest_def readFileSync_def saveManifest_def
        writeFileSync_def manifestPath_def path_join_def dirname_def new_manager_def
        tw fsA_def reload_env_fields test_sheets)
  let ?wA = "\<lparr>disk = fsA, cacheManager = Some ?m0, originalSizeTotal = 0, newSizeTotal = 0,
               processedFiles = 0, skippedFiles = 0, cacheHits = 0\<rparr>"
  have cdn: "config_done reload_env ?cfg ''/r'' (new_integration twin_fs) = (?wA, None)"
    using ini by (simp add: config_done_def twin_config new_integration_def)
  have e0: "entries (manifest ?m0) = Map.empty" "cacheDir ?m0 = ''/r/cache''"
    by (simp_all add: new_manager_def empty_manifest_def)
  let ?mB = "?m0\<lparr>manifest := (manifest ?m0)\<lparr>entries := [?a \<mapsto> first_entry]\<rparr>\<rparr>"
  let ?wB = "\<lparr>disk = fsA(?a \<mapsto> File test_min, ?art \<mapsto> File test_min),
               cacheManager = Some ?mB, originalSizeTotal = 25, newSizeTotal = 16,
               processedFiles = Suc 0, skippedFiles = 0, cacheHits = 0\<rparr>"
  have s1: "process_candidate reload_env ?cfg ?wA ?a = (?wB, None)"
    by (simp add: process_candidate_def process_candidate_cached_def twin_config readFileSync_def
        look getCachedFile_def e0 twin_css_attempt store_result_def saveToCache_def
        cachedFilePath_def path_join_def last_segment_def writeFileSync_def dirname_def
        reload_env_fields test_sheets first_entry_def)
  let ?wC = "\<lparr>disk = fsA(?a \<mapsto> File test_min, ?art \<mapsto> File test_min),
               cacheManager = Some ?mB, originalSizeTotal = 25, newSizeTotal = 16,
               processedFiles = Suc 0, skippedFiles = Suc 0, cacheHits = 0\<rparr>"
  have sk: "Skipped \<noteq> BiggerSize" by (simp add: Skipped_def BiggerSize_def)
  have s2: "process_candidate reload_env ?cfg ?wB ?n = (?wC, None)"
    using sk
    by (simp add: process_candidate_def process_candidate_cached_def twin_config readFileSync_def
        look getCachedFile_def e0 twin_notes_attempt)
  have lp: "process_candidates reload_env ?cfg ?wA twin_cs = (?wC, None)"
    by (simp add: twin_cs_def s1 s2)
  have mB: "manifest ?mB = first_manifest"
    by (simp add: first_manifest_def new_manager_def empty_manifest_def)
  have str: "manifest_stringify reload_env (empty_manifest\<lparr>entries := [?a \<mapsto> first_entry]\<rparr>)
               = ''{2e74657374207b20636f6c6f723a20236666303030303b207d}''"
    by (simp add: reload_env_def sample_env_def first_entry_def)
  have sv: "saveManifest reload_env ?mB (fsA(?a \<mapsto> File test_min, ?art \<mapsto> File test_min))
              = Inr (fsA(?a \<mapsto> File test_min, ?art \<mapsto> File test_min, ?mp \<mapsto> File ''{2e74657374207b20636f6c6f723a20236666303030303b207d}''))"
    by (simp add: saveManifest_def manifestPath_def path_join_def new_manager_def str
        writeFileSync_def look)
  have bd: "build_done reload_env ?cfg twin_cs ?wA
              = (?wC\<lparr>disk := (disk ?wC)(?mp \<mapsto> File ''{2e74657374207b20636f6c6f723a20236666303030303b207d}'')\<rparr>, None)"
    by (simp add: build_done_def twin_config lp sv)
  have dk: "fsA(?a \<mapsto> File test_min, ?art \<mapsto> File test_min, ?mp \<mapsto> File ''{2e74657374207b20636f6c6f723a20236666303030303b207d}'') = first_disk"
    by (rule ext) (simp add: fsA_def twin_fs_def first_disk_def)
  have mm: "?mB = \<lparr>cacheDir = ''/r/cache'', manifest = first_manifest\<rparr>"
    by (simp add: new_manager_def first_manifest_def empty_manifest_def)
  have fin: "?wC\<lparr>disk := (disk ?wC)(?mp \<mapsto> File ''{2e74657374207b20636f6c6f723a20236666303030303b207d}'')\<rparr> = first_world"
    unfolding first_world_def using dk mm by (simp add: new_integration_def)
  show ?thesis
    unfolding run_build_def cdn prod.case option.case bd fin ..
qed


lemma twin_separated: "well_separated reload_env ''/r/cache'' twin_fs twin_cs"
  by (simp add: well_separated_def twin_cs_def twin_fs_def artifact_path_def file_bytes_def
      path_join_def last_segment_def reload_env_fields test_sheets)

theorem second_build_hits_cache_witness:
  "\<exists>w2. run_build reload_env cache_in_r ''/r'' twin_cs
            (\<lambda>q. if q \<in> set twin_cs then twin_fs q else first_disk q) = (w2, None)
        \<and> disk w2 = first_disk
        \<and> processedFiles w2 = 0 \<and> cacheHits w2 = 1 \<and> skippedFiles w2 = 1"
proof -
  let ?fs1 = "\<lambda>q. if q \<in> set twin_cs then twin_fs q else first_disk q"
  have sep: "well_separated reload_env
               (path_join ''/r'' (cache_dir_setting (compressionConfig cache_in_r))) twin_fs twin_cs"
    unfolding twin_config(2) by (rule twin_separated)
  have fresh: "twin_fs (path_join (path_join ''/r'' (cache_dir_setting (compressionConfig cache_in_r)))
                 ''manifest.json'') = None"
    unfolding twin_config(2) by (simp add: twin_fs_def path_join_def)
  have rt: "\<forall>m1. cacheManager first_world = Some m1 \<longrightarrow>
               manifest_parse reload_env (manifest_stringify reload_env (manifest m1))
                 = Some (manifest m1)"
    by (auto simp: first_world_def reload_env_fields test_sheets)
  have fs1: "\<forall>q. ?fs1 q = (if q \<in> set twin_cs then twin_fs q else disk first_world q)"
    by (simp add: first_world_def)
  from second_build_hits_cache [OF twin_config(1) sep fresh twin_first_build rt fs1]
  show ?thesis
    by (auto simp: first_world_def)
qed

text \<open>
  The cache is keyed by the hash of the bytes found in the build directory. The first
  build compresses \<open>a.css\<close> in place and stores the artifact under the hash of the
  original bytes. A second build over the directory as the first build left it, with
  nothing changed, finds the compressed bytes, whose hash is not the stored source
  hash: the entry is invalidated, the artifact of the first build is unlinked, the
  file is handed to the minifier again, and a new artifact is written under the hash
  of the compressed bytes. The file keeps its bytes, but no cache hit is reported, and
  one processed file.
\<close>

theorem rerun_on_compressed_output_counterexample:
  "run_build reload_env cache_in_r ''/r'' twin_cs twin_fs = (first_world, None)
   \<and> processedFiles first_world = 1
   \<and> disk first_world ''/r/dist/a.css'' = Some (File test_min)
   \<and> disk first_world ''/r/cache/2e74657374207b20636f6c6f723a20236666303030303b207d.css'' = Some (File test_min)
   \<and> snd (run_build reload_env cache_in_r ''/r'' twin_cs (disk first_world)) = None
   \<and> cacheHits (fst (run_build reload_env cache_in_r ''/r'' twin_cs (disk first_world))) = 0
   \<and> processedFiles (fst (run_build reload_env cache_in_r ''/r'' twin_cs (disk first_world))) = 1
   \<and> disk (fst (run_build reload_env cache_in_r ''/r'' twin_cs (disk first_world)))
         ''/r/cache/2e74657374207b20636f6c6f723a20236666303030303b207d.css'' = None
   \<and> disk (fst (run_build reload_env cache_in_r ''/r'' twin_cs (disk first_world)))
         ''/r/cache/2e746573747b636f6c6f723a7265647d.css'' = Some (File test_min)
   \<and> disk (fst (run_build reload_env cache_in_r ''/r'' twin_cs (disk first_world)))
         ''/r/dist/a.css'' = Some (File test_min)"
proof -
  let ?cfg = "compressionConfig cache_in_r"
  let ?a = "''/r/dist/a.css''"
  let ?n = "''/r/dist/notes.txt''"
  let ?art = "''/r/cache/2e74657374207b20636f6c6f723a20236666303030303b207d.css''"
  let ?art2 = "''/r/cache/2e746573747b636f6c6f723a7265647d.css''"
  let ?mp = "''/r/cache/manifest.json''"
  let ?m0 = "new_manager ''/r/cache''"
  let ?mA = "\<lparr>cacheDir = ''/r/cache'', manifest = first_manifest\<rparr>"
  have look: "first_disk ?a = Some (File test_min)" "first_disk ?n = Some (File ''a  b'')"
    "first_disk ''/r/cache'' = Some Dir" "first_disk ?art = Some (File test_min)"
    "first_disk ?art2 = None" "first_disk ?mp = Some (File ''{2e74657374207b20636f6c6f723a20236666303030303b207d}'')"
    "first_disk ''/r'' = Some Dir"
    by (simp_all add: first_disk_def)
  have "initialize reload_env ?m0 first_disk = (?m0\<lparr>manifest := first_manifest\<rparr>, first_disk, None)"
    by (rule initialize_loaded [where b = "''{2e74657374207b20636f6c6f723a20236666303030303b207d}''"])
       (simp_all add: new_manager_def manifestPath_def path_join_def look reload_env_fields test_sheets)
  then have ini: "initialize reload_env ?m0 first_disk = (?mA, first_disk, None)"
    by (simp add: new_manager_def)
  let ?wA = "\<lparr>disk = first_disk, cacheManager = Some ?mA, originalSizeTotal = 0, newSizeTotal = 0,
               processedFiles = 0, skippedFiles = 0, cacheHits = 0\<rparr>"
  have cdn: "config_done reload_env ?cfg ''/r'' (new_integration first_disk) = (?wA, None)"
    using ini by (simp add: config_done_def twin_config new_integration_def)
  have eA: "entries first_manifest ?a = Some first_entry" "entries first_manifest ?n = None"
    by (simp_all add: first_manifest_def)
  have fe: "sourceHash first_entry = ''2e74657374207b20636f6c6f723a20236666303030303b207d''" "compressedPath first_entry = ?art"
    by (simp_all add: first_entry_def)
  let ?d1 = "unlink first_disk ?art"
  have look1: "?d1 ?a = Some (File test_min)" "?d1 ?n = Some (File ''a  b'')"
    "?d1 ''/r/cache'' = Some Dir" "?d1 ?art = None" "?d1 ?art2 = None"
    "?d1 ?mp = Some (File ''{2e74657374207b20636f6c6f723a20236666303030303b207d}'')"
    by (simp_all add: unlink_def look)
  have gc: "getCachedFile ?mA first_disk ?a ''2e746573747b636f6c6f723a7265647d'' u = (None, delete_entry ?mA ?a, ?d1)" for u
    by (simp add: getCachedFile_def eA fe invalidateCache_Some)
  let ?dC = "?d1(?art2 \<mapsto> File test_min)"
  define mB where "mB = (delete_entry ?mA ?a)\<lparr>manifest := (manifest (delete_entry ?mA ?a))
      \<lparr>entries := (entries (manifest (delete_entry ?mA ?a)))(?a \<mapsto>
          \<lparr>sourceHash = ''2e746573747b636f6c6f723a7265647d'', compressedPath = ?art2,
           timestamp = 1700000000000, settings = css_settings,
           size_original = 16, size_compressed = 16\<rparr>)\<rparr>\<rparr>"
  define wB where "wB = \<lparr>disk = ?dC, cacheManager = Some mB,
               originalSizeTotal = 0, newSizeTotal = 0,
               processedFiles = Suc 0, skippedFiles = 0, cacheHits = 0\<rparr>"
  define wC where "wC = \<lparr>disk = ?dC, cacheManager = Some mB,
               originalSizeTotal = 0, newSizeTotal = 0,
               processedFiles = Suc 0, skippedFiles = Suc 0, cacheHits = 0\<rparr>"
  have s1: "process_candidate reload_env ?cfg ?wA ?a = (wB, None)"
    unfolding wB_def mB_def
    by (simp add: process_candidate_def process_candidate_cached_def twin_config readFileSync_def
        look look1 reload_env_fields test_sheets gc twin_css_again store_result_def saveToCache_def
        cachedFilePath_def path_join_def last_segment_def writeFileSync_def dirname_def)
  have sk: "Skipped \<noteq> BiggerSize" by (simp add: Skipped_def BiggerSize_def)
  have s2: "process_candidate reload_env ?cfg wB ?n = (wC, None)"
    unfolding wB_def wC_def mB_def using sk
    by (simp add: process_candidate_def process_candidate_cached_def twin_config readFileSync_def
        look1 getCachedFile_def eA twin_notes_attempt)
  have lp: "process_candidates reload_env ?cfg ?wA twin_cs = (wC, None)"
    by (simp only: twin_cs_def process_candidates.simps s1 s2 prod.case option.case)
  have cm: "cacheManager wC = Some mB" "disk wC = ?dC" "cacheHits wC = 0" "processedFiles wC = 1"
    by (simp_all add: wC_def)
  have mpB: "manifestPath mB = ?mp"
    by (simp add: mB_def manifestPath_def path_join_def)
  have svx: "saveManifest reload_env mB ?dC
               = Inr (?dC(?mp \<mapsto> File (manifest_stringify reload_env (manifest mB))))"
    by (simp add: saveManifest_def mpB writeFileSync_def look1)
  let ?w2 = "wC\<lparr>disk := ?dC(?mp \<mapsto> File (manifest_stringify reload_env (manifest mB)))\<rparr>"
  have bd: "build_done reload_env ?cfg twin_cs ?wA = (?w2, None)"
    by (simp add: build_done_def twin_config lp cm svx)
  have rb: "run_build reload_env cache_in_r ''/r'' twin_cs first_disk = (?w2, None)"
    unfolding run_build_def cdn prod.case option.case bd ..
  have dfw: "disk first_world = first_disk" by (simp add: first_world_def)
  show ?thesis
    unfolding dfw rb using twin_first_build look look1 cm
    by (simp add: first_world_def)
qed

end
